theory Spec2Isabelle
  imports Complex_Main
begin

section \<open>Library functions the repository calls\<close>

text \<open>
  The scripts call \<^verbatim>\<open>hashlib.sha256(data.encode()).hexdigest()\<close>. The digest is code of
  Python's standard library, not of the repository, so every operation that hashes takes the
  digest as an argument \<open>sha256_hex\<close> and the theorems hold for every such function.
\<close>

type_synonym hasher = "string \<Rightarrow> string"

text \<open>\<^verbatim>\<open>SHA256Verifier.compute_hash\<close> (the same method in both classes).\<close>

definition compute_hash :: "hasher \<Rightarrow> string \<Rightarrow> string" where
  "compute_hash sha256_hex data = sha256_hex data"

section \<open>SHA256Verifier\<close>

text \<open>\<^verbatim>\<open>self.hashes\<close>: a dict from key to hex digest; the keys are strings.\<close>

type_synonym hashes = "string \<rightharpoonup> string"

text \<open>
  \<^verbatim>\<open>SHA256Verifier.verify\<close> of journalism_pipeline.py:
  \<^verbatim>\<open>
    current = self.compute_hash(data)
    if key in self.hashes:
        return self.hashes[key] == current
    self.hashes[key] = current
    return True
  \<close>
  The result is the returned bool and the dict after the call. The pipeline calls it with
  a source's id for the key, which may be any hashable value, so the type of the keys is
  left open.
\<close>

definition verify_jp ::
    "hasher \<Rightarrow> ('k \<rightharpoonup> string) \<Rightarrow> 'k \<Rightarrow> string \<Rightarrow> bool \<times> ('k \<rightharpoonup> string)" where
  "verify_jp sha256_hex hs key data =
     (let current = compute_hash sha256_hex data in
      case hs key of
        Some stored \<Rightarrow> (stored = current, hs)
      | None \<Rightarrow> (True, hs(key \<mapsto> current)))"

text \<open>
  \<^verbatim>\<open>SHA256Verifier.verify\<close> of octopus_parliament_only.py:
  \<^verbatim>\<open>
    current_hash = self.compute_hash(data)
    if key in self.hashes:
        if self.hashes[key] != current_hash:
            return False
    self.hashes[key] = current_hash
    return True
  \<close>
\<close>

definition verify_op :: "hasher \<Rightarrow> hashes \<Rightarrow> string \<Rightarrow> string \<Rightarrow> bool \<times> hashes" where
  "verify_op sha256_hex hs key data =
     (let current_hash = compute_hash sha256_hex data in
      case hs key of
        Some stored \<Rightarrow>
          if stored \<noteq> current_hash then (False, hs)
          else (True, hs(key \<mapsto> current_hash))
      | None \<Rightarrow> (True, hs(key \<mapsto> current_hash)))"

text \<open>
  A digest to evaluate the operations at concrete inputs: the identity on strings, which
  like an ideal digest gives different strings different hashes.
\<close>

definition plain_digest :: hasher where
  "plain_digest data = data"

section \<open>Strings, dicts with string values, the clock\<close>

text \<open>Python's \<^verbatim>\<open>sub in s\<close> on two strings: \<open>sub\<close> is a contiguous part of \<open>s\<close>.\<close>

fun starts_with :: "string \<Rightarrow> string \<Rightarrow> bool" where
  "starts_with [] s = True"
| "starts_with (c # cs) [] = False"
| "starts_with (c # cs) (d # ds) = (c = d \<and> starts_with cs ds)"

fun str_contains :: "string \<Rightarrow> string \<Rightarrow> bool" where
  "str_contains sub [] = (sub = [])"
| "str_contains sub (c # cs) = (starts_with sub (c # cs) \<or> str_contains sub cs)"

text \<open>The decimal digits of a natural number, as an f-string prints an int.\<close>

definition digit_char :: "nat \<Rightarrow> char" where
  "digit_char d = ''0123456789'' ! (d mod 10)"

function str_of_nat :: "nat \<Rightarrow> string" where
  "str_of_nat n =
     (if n < 10 then [digit_char n] else str_of_nat (n div 10) @ [digit_char (n mod 10)])"
  by pat_completeness auto
termination
  by (relation "measure id") auto

declare str_of_nat.simps [simp del]

text \<open>
  A dict keeps its keys in insertion order: an association list. \<^verbatim>\<open>d[k] = v\<close> replaces the
  value of a key in place and appends a new key at the end.
\<close>

fun dict_set :: "('k \<times> 'v) list \<Rightarrow> 'k \<Rightarrow> 'v \<Rightarrow> ('k \<times> 'v) list" where
  "dict_set [] k v = [(k, v)]"
| "dict_set ((k', v') # kvs) k v =
     (if k' = k then (k, v) # kvs else (k', v') # dict_set kvs k v)"

text \<open>\<^verbatim>\<open>d.get(k, default)\<close>.\<close>

definition dict_get_or :: "('k \<times> 'v) list \<Rightarrow> 'k \<Rightarrow> 'v \<Rightarrow> 'v" where
  "dict_get_or d k dflt = (case map_of d k of Some v \<Rightarrow> v | None \<Rightarrow> dflt)"

text \<open>
  A \<^verbatim>\<open>datetime\<close> by what the scripts read of it: the instant in microseconds (for the
  difference of two datetimes compared with a \<^verbatim>\<open>timedelta\<close>), \<^verbatim>\<open>.hour\<close> and
  \<^verbatim>\<open>.isoformat()\<close>.
\<close>

record datetime =
  micros :: int
  hour :: nat
  isoformat :: string

text \<open>
  The values of the dicts the scripts pass around: None, bool, int, float, str, list, and
  dict with str keys in insertion order. A float stands for the rational it denotes (the
  scripts' floats are the constants 0.0, 0.3, 0.8 and the quotient of two lengths). Values are
  trees: no object is shared between two places of a value.
\<close>

datatype pyval =
    PNone
  | PBool bool
  | PInt int
  | PFloat rat
  | PStr string
  | PList "pyval list"
  | PDict "(string \<times> pyval) list"

text \<open>A dict whose values are all strings, as a \<open>pyval\<close>.\<close>

definition str_dict :: "(string \<times> string) list \<Rightarrow> pyval" where
  "str_dict d = PDict (map (\<lambda>(k, v). (k, PStr v)) d)"

text \<open>
  What the scripts take from outside: the digest; \<^verbatim>\<open>json.dumps(value, sort_keys=flag)\<close>;
  \<^verbatim>\<open>str(value)\<close> of a value that is not a str; and the clock, \<open>now n\<close> being what the
  \<open>n\<close>-th call of \<^verbatim>\<open>datetime.now()\<close> returns.
\<close>

record world =
  sha256_hex :: hasher
  json_dumps :: "bool \<Rightarrow> pyval \<Rightarrow> string"
  py_repr :: "pyval \<Rightarrow> string"
  now :: "nat \<Rightarrow> datetime"

section \<open>octopus\_parliament\_only.py\<close>

subsection \<open>OmniplexConstitution\<close>

definition human_judgment_preserved :: bool where
  "human_judgment_preserved = True"

definition zero_manipulation_check :: "'a \<Rightarrow> bool" where
  "zero_manipulation_check data = True"

text \<open>
  \<^verbatim>\<open>
    if "decision" in action and not self.human_judgment_preserved():
        return False
    if not self.zero_manipulation_check(data):
        return False
    return True
  \<close>
\<close>

definition check :: "string \<Rightarrow> 'a \<Rightarrow> bool" where
  "check action data =
     (if str_contains ''decision'' action \<and> \<not> human_judgment_preserved then False
      else if \<not> zero_manipulation_check data then False
      else True)"

subsection \<open>We333ParliamentBrain\<close>

text \<open>One entry of \<^verbatim>\<open>self.arms\<close>: \<^verbatim>\<open>{'status': 'ready', 'errors': 0}\<close>.\<close>

record arm =
  status :: string
  errors :: int

text \<open>
  The brain's fields, and \<open>ticks\<close>, the number of calls of \<^verbatim>\<open>datetime.now()\<close> made so
  far. \<^verbatim>\<open>self.ethics\<close> and \<^verbatim>\<open>self.sha\<close> are objects set in the constructor and never
  reassigned; of \<^verbatim>\<open>self.sha\<close> the state keeps the dict \<^verbatim>\<open>hashes\<close>.
\<close>

record brain =
  arms :: "(string \<times> arm) list"
  sha :: hashes
  frozen :: bool
  last_drift :: datetime
  ticks :: nat

definition arm_names :: "string list" where
  "arm_names = [''bills_monitor'', ''votes_tracker'', ''debates_analyzer'',
     ''committees_watcher'', ''questions_tracker'', ''lords_monitor'',
     ''amendments_tracker'', ''future_calendar'']"

text \<open>\<^verbatim>\<open>datetime.now()\<close>: the next reading of the clock.\<close>

definition datetime_now :: "world \<Rightarrow> brain \<Rightarrow> datetime \<times> brain" where
  "datetime_now w s = (now w (ticks s), s\<lparr>ticks := ticks s + 1\<rparr>)"

text \<open>\<^verbatim>\<open>__init__\<close>: eight ready arms, an empty verifier, not frozen, one reading of the clock.\<close>

definition init_brain :: "world \<Rightarrow> brain" where
  "init_brain w =
     \<lparr>arms = map (\<lambda>n. (n, \<lparr>status = ''ready'', errors = 0\<rparr>)) arm_names,
      sha = Map.empty, frozen = False, last_drift = now w 0, ticks = 1\<rparr>"

definition check_expected_pattern :: "(string \<times> string) list \<Rightarrow> bool" where
  "check_expected_pattern data = True"

definition check_parliament_focus :: bool where
  "check_parliament_focus = True"

text \<open>
  \<^verbatim>\<open>freeze\<close>: \<^verbatim>\<open>self.frozen = True\<close>, then every arm's status becomes \<^verbatim>\<open>'frozen'\<close>.
\<close>

definition freeze :: "string \<Rightarrow> brain \<Rightarrow> brain" where
  "freeze reason s =
     s\<lparr>frozen := True,
       arms := map (\<lambda>(n, a). (n, a\<lparr>status := ''frozen''\<rparr>)) (arms s)\<rparr>"

text \<open>\<^verbatim>\<open>timedelta(minutes=30)\<close> in microseconds.\<close>

definition thirty_minutes :: int where
  "thirty_minutes = 30 * 60 * 1000000"

text \<open>
  \<^verbatim>\<open>drift_check\<close>: one reading of the clock for the comparison; when the checks pass, a
  second one for \<^verbatim>\<open>self.last_drift\<close>.
\<close>

definition drift_check :: "world \<Rightarrow> brain \<Rightarrow> bool \<times> brain" where
  "drift_check w s =
     (let (t, s1) = datetime_now w s in
      if micros t - micros (last_drift s1) > thirty_minutes then
        let checks = [check_parliament_focus, length (arms s1) = 8, True, True, True] in
        if \<not> list_all (\<lambda>c. c) checks then (False, freeze ''DRIFT DETECTED'' s1)
        else let (t2, s2) = datetime_now w s1 in (True, s2\<lparr>last_drift := t2\<rparr>)
      else (True, s1))"

text \<open>
  \<^verbatim>\<open>triple_verify\<close>, on the dict of strings that \<^verbatim>\<open>fetch_parliament_data\<close> returns. The
  verifier is called whatever the first three checks gave.
\<close>

definition triple_verify :: "world \<Rightarrow> (string \<times> string) list \<Rightarrow> brain \<Rightarrow> bool \<times> brain" where
  "triple_verify w data s =
     (let source_ok = (map_of data ''source'' \<noteq> None
            \<and> str_contains ''parliament.uk'' (dict_get_or data ''source'' []));
          structure_ok = (length data > 0);
          pattern_ok = check_expected_pattern data;
          (t, s1) = datetime_now w s;
          (sha_ok, hs) = verify_op (sha256_hex w) (sha s1)
             (dict_get_or data ''type'' ''unknown'' @ ''_'' @ str_of_nat (hour t))
             (json_dumps w True (str_dict data));
          s2 = s1\<lparr>sha := hs\<rparr>;
          checks = [source_ok, structure_ok, pattern_ok, sha_ok]
      in if \<not> list_all (\<lambda>c. c) checks then (False, s2) else (True, s2))"

definition mock_endpoints :: "(string \<times> string) list" where
  "mock_endpoints =
     [(''bills_monitor'', ''/bills/current''),
      (''votes_tracker'', ''/divisions/recent''),
      (''debates_analyzer'', ''/debates/today''),
      (''committees_watcher'', ''/committees/meetings''),
      (''questions_tracker'', ''/questions/written''),
      (''lords_monitor'', ''/lords/business''),
      (''amendments_tracker'', ''/bills/amendments''),
      (''future_calendar'', ''/calendar/upcoming'')]"

definition fetch_parliament_data ::
    "world \<Rightarrow> string \<Rightarrow> brain \<Rightarrow> (string \<times> string) list \<times> brain" where
  "fetch_parliament_data w arm_name s =
     (let endpoint = dict_get_or mock_endpoints arm_name ''/unknown'';
          (t, s1) = datetime_now w s
      in ([(''type'', arm_name),
           (''source'', ''api.parliament.uk'' @ endpoint),
           (''timestamp'', isoformat t),
           (''data'', ''Mock Parliament data from '' @ arm_name)], s1))"

datatype py_error = KeyError string | TypeError | AttributeError | ZeroDivisionError

text \<open>\<^verbatim>\<open>self.arms[arm_name]['errors'] += 1\<close> on the entry of that name.\<close>

definition bump_errors :: "string \<Rightarrow> (string \<times> arm) list \<Rightarrow> (string \<times> arm) list" where
  "bump_errors arm_name as =
     map (\<lambda>(n, a). if n = arm_name then (n, a\<lparr>errors := errors a + 1\<rparr>) else (n, a)) as"

text \<open>
  \<^verbatim>\<open>process_arm\<close>:
  \<^verbatim>\<open>
    if not self.ethics.check(f"fetch_{arm_name}", arm_name):
        return {}
    data = self.fetch_parliament_data(arm_name)
    if not self.triple_verify(data):
        self.arms[arm_name]['errors'] += 1
        if self.arms[arm_name]['errors'] >= 3:
            self.freeze(f"Arm {arm_name} failed 3 times")
        return {}
    return data
  \<close>
  \<^verbatim>\<open>self.arms[arm_name]\<close> raises KeyError for a name that is no arm.
\<close>

definition process_arm ::
    "world \<Rightarrow> string \<Rightarrow> brain \<Rightarrow> py_error + ((string \<times> string) list \<times> brain)" where
  "process_arm w arm_name s =
     (if \<not> check (''fetch_'' @ arm_name) arm_name then Inr ([], s)
      else
        let (data, s1) = fetch_parliament_data w arm_name s;
            (ok, s2) = triple_verify w data s1
        in if \<not> ok then
             (case map_of (arms s2) arm_name of
                None \<Rightarrow> Inl (KeyError arm_name)
              | Some a \<Rightarrow>
                  let s3 = s2\<lparr>arms := bump_errors arm_name (arms s2)\<rparr> in
                  if errors a + 1 \<ge> 3
                  then Inr ([], freeze (''Arm '' @ arm_name @ '' failed 3 times'') s3)
                  else Inr ([], s3))
           else Inr (data, s2))"

text \<open>
  What \<^verbatim>\<open>gather_intelligence\<close> returns: the dict \<^verbatim>\<open>{"status": "frozen"}\<close>, or the dict
  from arm name to the data gathered.
\<close>

datatype gathered = Status string | Intelligence "(string \<times> (string \<times> string) list) list"

text \<open>
  The loop of \<^verbatim>\<open>gather_intelligence\<close> over \<^verbatim>\<open>self.arms.items()\<close>: the keys are those
  at the start of the loop, each arm's status is read when its turn comes (so that a freeze
  by one arm is seen by those after it). The keys of \<^verbatim>\<open>self.arms\<close> never change, so a
  name without an entry does not occur; the model gives it the KeyError of a lookup.
\<close>

fun gather_loop ::
    "world \<Rightarrow> string list \<Rightarrow> (string \<times> (string \<times> string) list) list \<Rightarrow> brain
      \<Rightarrow> py_error + ((string \<times> (string \<times> string) list) list \<times> brain)" where
  "gather_loop w [] intelligence s = Inr (intelligence, s)"
| "gather_loop w (arm_name # rest) intelligence s =
     (case map_of (arms s) arm_name of
        None \<Rightarrow> Inl (KeyError arm_name)
      | Some arm_data \<Rightarrow>
          if status arm_data = ''ready'' then
            (case process_arm w arm_name s of
               Inl e \<Rightarrow> Inl e
             | Inr (result, s') \<Rightarrow>
                 if result \<noteq> []
                 then gather_loop w rest (dict_set intelligence arm_name result) s'
                 else gather_loop w rest intelligence s')
          else gather_loop w rest intelligence s)"

definition gather_intelligence :: "world \<Rightarrow> brain \<Rightarrow> py_error + (gathered \<times> brain)" where
  "gather_intelligence w s =
     (if frozen s then Inr (Status ''frozen'', s)
      else case gather_loop w (map fst (arms s)) [] s of
             Inl e \<Rightarrow> Inl e
           | Inr (intelligence, s') \<Rightarrow> Inr (Intelligence intelligence, s'))"

text \<open>
  The loop of \<^verbatim>\<open>run\<close>, from the value of \<^verbatim>\<open>iteration\<close> on:
  \<^verbatim>\<open>
    while not self.frozen and iteration < 100:
        iteration += 1
        print(... datetime.now().strftime('%H:%M:%S') ...)
        if not self.drift_check():
            break
        intelligence = self.gather_intelligence()
        if 'status' in intelligence and intelligence['status'] == 'frozen':
            break
        self.display_summary(intelligence)
        time.sleep(10)
  \<close>
  Printing and sleeping change nothing of the brain but the clock, which is the world's.
\<close>

function run_loop :: "world \<Rightarrow> nat \<Rightarrow> brain \<Rightarrow> py_error + brain" where
  "run_loop w iteration s =
     (if \<not> frozen s \<and> iteration < 100 then
        let (t, s1) = datetime_now w s;
            (aligned, s2) = drift_check w s1
        in if \<not> aligned then Inr s2
           else (case gather_intelligence w s2 of
                   Inl e \<Rightarrow> Inl e
                 | Inr (intelligence, s3) \<Rightarrow>
                     if intelligence = Status ''frozen'' then Inr s3
                     else run_loop w (Suc iteration) s3)
      else Inr s)"
  by pat_completeness auto
termination
  by (relation "measure (\<lambda>(w, iteration, s). 100 - iteration)") auto

declare run_loop.simps [simp del]

definition run :: "world \<Rightarrow> brain \<Rightarrow> py_error + brain" where
  "run w s = run_loop w 0 s"

text \<open>
  The places where the loop of \<^verbatim>\<open>run\<close> tests its condition: \<open>loop_head w i s j x\<close> says that
  the loop, entered at iteration \<open>i\<close> in state \<open>s\<close>, comes to the test at iteration \<open>j\<close> in
  state \<open>x\<close>. It is at its own entry; and from a test that it passes it comes to the next
  one when the drift check is passed and the round is gathered without a break.
\<close>

inductive loop_head :: "world \<Rightarrow> nat \<Rightarrow> brain \<Rightarrow> nat \<Rightarrow> brain \<Rightarrow> bool" where
  head_start: "loop_head w i s i s"
| head_next:
    "loop_head w i s j x \<Longrightarrow> \<not> frozen x \<Longrightarrow> j < 100 \<Longrightarrow>
     drift_check w (snd (datetime_now w x)) = (True, x2) \<Longrightarrow>
     gather_intelligence w x2 = Inr (g, x3) \<Longrightarrow> g \<noteq> Status ''frozen'' \<Longrightarrow>
     loop_head w i s (Suc j) x3"

section \<open>octopus\_we333.py: We333WestminsterWatch\<close>

text \<open>
  What \<^verbatim>\<open>collect_from_arm\<close> returns (\<^verbatim>\<open>source\<close>, \<^verbatim>\<open>timestamp\<close>, \<^verbatim>\<open>data\<close>) and what
  \<^verbatim>\<open>we333_merge\<close> makes of it and of the human context.
\<close>

record collected =
  c_source :: string
  c_timestamp :: string
  c_data :: string

record merged =
  ai_perspective :: collected
  human_wisdom :: "(string \<times> string) list"
  our_synthesis :: string
  m_we333_verified :: bool

text \<open>
  One entry of \<^verbatim>\<open>self.arms\<close>:
  \<^verbatim>\<open>{'status': 'ready', 'last_data': None, 'errors': 0, 'we333_verified': False}\<close>.
\<close>

record watch_arm = arm +
  last_data :: "merged option"
  we333_verified :: bool

text \<open>
  The fields of the watch that its methods read or write, and \<open>w_ticks\<close>, the number of
  calls of \<^verbatim>\<open>datetime.now()\<close> made so far.
\<close>

record watch =
  w_arms :: "(string \<times> watch_arm) list"
  w_frozen :: bool
  last_drift_check :: datetime
  w_ticks :: nat

definition our_arms :: "string list" where
  "our_arms = [''parliament_monitor'', ''council_tracker'', ''x_sentiment'',
     ''bias_detector'', ''economics_tracker'', ''crime_monitor'', ''weather_crisis'',
     ''future_simulator'']"

definition w_datetime_now :: "world \<Rightarrow> watch \<Rightarrow> datetime \<times> watch" where
  "w_datetime_now w s = (now w (w_ticks s), s\<lparr>w_ticks := w_ticks s + 1\<rparr>)"

text \<open>\<^verbatim>\<open>__init__\<close> with \<^verbatim>\<open>initialize_our_arms\<close>.\<close>

definition init_watch :: "world \<Rightarrow> watch" where
  "init_watch w =
     \<lparr>w_arms = map (\<lambda>n. (n, \<lparr>status = ''ready'', errors = 0, last_data = None,
                                 we333_verified = False\<rparr>)) our_arms,
      w_frozen = False, last_drift_check = now w 0, w_ticks = 1\<rparr>"

definition check_uk_focus :: bool where "check_uk_focus = True"
definition check_simplicity :: bool where "check_simplicity = True"
definition check_truth_priority :: bool where "check_truth_priority = True"
definition check_zero_manipulation :: bool where "check_zero_manipulation = True"
definition verify_primary_source :: "merged \<Rightarrow> bool" where "verify_primary_source d = True"
definition verify_secondary_source :: "merged \<Rightarrow> bool" where "verify_secondary_source d = True"
definition verify_pattern_match :: "merged \<Rightarrow> bool" where "verify_pattern_match d = True"
definition await_human_verification :: bool where "await_human_verification = True"

definition get_human_context :: "string \<Rightarrow> (string \<times> string) list" where
  "get_human_context arm_name = [(''human_insight'', ''Local knowledge added'')]"

text \<open>
  \<^verbatim>\<open>we_freeze\<close>: \<^verbatim>\<open>self.frozen = True\<close>, every arm's status becomes \<^verbatim>\<open>'frozen'\<close>, and
  the clock is read once for the log line.
\<close>

definition we_freeze :: "world \<Rightarrow> string \<Rightarrow> watch \<Rightarrow> watch" where
  "we_freeze w reason s =
     (let s1 = s\<lparr>w_frozen := True\<rparr>;
          s2 = s1\<lparr>w_arms := map (\<lambda>(n, a). (n, a\<lparr>status := ''frozen''\<rparr>)) (w_arms s1)\<rparr>
      in snd (w_datetime_now w s2))"

definition we333_drift_check :: "world \<Rightarrow> watch \<Rightarrow> bool \<times> watch" where
  "we333_drift_check w s =
     (let (t, s1) = w_datetime_now w s in
      if micros t - micros (last_drift_check s1) > thirty_minutes then
        let checks = [check_uk_focus, length (w_arms s1) = 8, check_simplicity,
                      check_truth_priority, check_zero_manipulation] in
        if \<not> list_all (\<lambda>c. c) checks
        then (False, we_freeze w ''WE DETECTED DRIFT TOGETHER'' s1)
        else let (t2, s2) = w_datetime_now w s1 in (True, s2\<lparr>last_drift_check := t2\<rparr>)
      else (True, s1))"

text \<open>
  \<^verbatim>\<open>we333_triple_check\<close>:
  \<^verbatim>\<open>
    we_verified = (ai_check1 and ai_check2 and ai_check3 and human_check)
    if not we_verified:
        self.we_freeze("WE333 VERIFICATION NEEDS CONSENSUS")
        return False
    return True
  \<close>
\<close>

definition we333_triple_check :: "world \<Rightarrow> merged \<Rightarrow> watch \<Rightarrow> bool \<times> watch" where
  "we333_triple_check w d s =
     (let ai_check1 = verify_primary_source d;
          ai_check2 = verify_secondary_source d;
          ai_check3 = verify_pattern_match d;
          human_check = await_human_verification;
          we_verified = (ai_check1 \<and> ai_check2 \<and> ai_check3 \<and> human_check)
      in if \<not> we_verified
         then (False, we_freeze w ''WE333 VERIFICATION NEEDS CONSENSUS'' s)
         else (True, s))"


definition collect_from_arm :: "world \<Rightarrow> string \<Rightarrow> watch \<Rightarrow> collected \<times> watch" where
  "collect_from_arm w arm_name s =
     (let (t, s1) = w_datetime_now w s in
      (\<lparr>c_source = arm_name, c_timestamp = isoformat t,
        c_data = ''Mock data from '' @ arm_name\<rparr>, s1))"

definition we333_merge :: "collected \<Rightarrow> (string \<times> string) list \<Rightarrow> merged" where
  "we333_merge ai_data human_context =
     \<lparr>ai_perspective = ai_data, human_wisdom = human_context,
      our_synthesis = ''Combined understanding'', m_we333_verified = True\<rparr>"

text \<open>The writes of \<^verbatim>\<open>collaborative_gather\<close> to the arm it is at.\<close>

definition set_verified :: "string \<Rightarrow> merged \<Rightarrow> (string \<times> watch_arm) list \<Rightarrow> (string \<times> watch_arm) list" where
  "set_verified arm_name d as =
     map (\<lambda>(n, a). if n = arm_name then (n, a\<lparr>last_data := Some d, we333_verified := True\<rparr>)
                    else (n, a)) as"

definition w_bump_errors :: "string \<Rightarrow> (string \<times> watch_arm) list \<Rightarrow> (string \<times> watch_arm) list" where
  "w_bump_errors arm_name as =
     map (\<lambda>(n, a). if n = arm_name then (n, a\<lparr>errors := errors a + 1\<rparr>) else (n, a)) as"

text \<open>
  What \<^verbatim>\<open>collaborative_gather\<close> returns: a dict with the one key \<^verbatim>\<open>status\<close>, or the
  dict from arm name to the merged data.
\<close>

datatype we_gathered = We_status string | Our_intelligence "(string \<times> merged) list"

text \<open>
  The loop of \<^verbatim>\<open>collaborative_gather\<close> over \<^verbatim>\<open>self.arms.items()\<close>:
  \<^verbatim>\<open>
    if arm_data['status'] == 'ready':
        ai_data = self.collect_from_arm(arm_name)
        human_context = self.get_human_context(arm_name)
        merged_data = self.we333_merge(ai_data, human_context)
        if self.we333_triple_check(merged_data):
            our_intelligence[arm_name] = merged_data
            arm_data['last_data'] = merged_data
            arm_data['we333_verified'] = True
        else:
            arm_data['errors'] += 1
            if arm_data['errors'] >= 3:
                self.we_freeze(f"OUR {arm_name} needs attention")
                return {"status": "WE are fixing together"}
  \<close>
  The names are the keys at the start of the loop; a name with no entry (there is none,
  the keys never change) is passed over.
\<close>

fun collaborative_loop ::
    "world \<Rightarrow> string list \<Rightarrow> (string \<times> merged) list \<Rightarrow> watch \<Rightarrow> we_gathered \<times> watch" where
  "collaborative_loop w [] our_intelligence s = (Our_intelligence our_intelligence, s)"
| "collaborative_loop w (arm_name # rest) our_intelligence s =
     (case map_of (w_arms s) arm_name of
        None \<Rightarrow> collaborative_loop w rest our_intelligence s
      | Some arm_data \<Rightarrow>
          if status arm_data = ''ready'' then
            let (ai_data, s1) = collect_from_arm w arm_name s;
                human_context = get_human_context arm_name;
                merged_data = we333_merge ai_data human_context;
                (verified, s2) = we333_triple_check w merged_data s1
            in if verified then
                 collaborative_loop w rest (dict_set our_intelligence arm_name merged_data)
                   (s2\<lparr>w_arms := set_verified arm_name merged_data (w_arms s2)\<rparr>)
               else
                 let s3 = s2\<lparr>w_arms := w_bump_errors arm_name (w_arms s2)\<rparr> in
                 if errors arm_data + 1 \<ge> 3
                 then (We_status ''WE are fixing together'',
                       we_freeze w (''OUR '' @ arm_name @ '' needs attention'') s3)
                 else collaborative_loop w rest our_intelligence s3
          else collaborative_loop w rest our_intelligence s)"

definition collaborative_gather :: "world \<Rightarrow> watch \<Rightarrow> we_gathered \<times> watch" where
  "collaborative_gather w s =
     (if w_frozen s then (We_status ''WE are reviewing together'', s)
      else collaborative_loop w (map fst (w_arms s)) [] s)"

section \<open>journalism\_pipeline.py\<close>

subsection \<open>Operations of Python on values\<close>

type_synonym pydict = "(string \<times> pyval) list"

text \<open>The truth value of a value, as \<^verbatim>\<open>if\<close>, \<^verbatim>\<open>and\<close> and \<^verbatim>\<open>not\<close> read it.\<close>

fun truthy :: "pyval \<Rightarrow> bool" where
  "truthy PNone = False"
| "truthy (PBool b) = b"
| "truthy (PInt i) = (i \<noteq> 0)"
| "truthy (PFloat r) = (r \<noteq> 0)"
| "truthy (PStr s) = (s \<noteq> [])"
| "truthy (PList xs) = (xs \<noteq> [])"
| "truthy (PDict kvs) = (kvs \<noteq> [])"

text \<open>
  \<^verbatim>\<open>x in v\<close> for a str \<open>x\<close>: a part of a str, an element of a list (a str equals only an
  equal str), a key of a dict; TypeError for a value that is not iterable.
\<close>

fun py_in :: "string \<Rightarrow> pyval \<Rightarrow> py_error + bool" where
  "py_in x (PStr s) = Inr (str_contains x s)"
| "py_in x (PList xs) = Inr (PStr x \<in> set xs)"
| "py_in x (PDict kvs) = Inr (x \<in> set (map fst kvs))"
| "py_in x v = Inl TypeError"

text \<open>\<^verbatim>\<open>v > n\<close> for an int \<open>n\<close>: numbers compare (True is 1, False is 0), anything else raises.\<close>

fun py_gt :: "pyval \<Rightarrow> int \<Rightarrow> py_error + bool" where
  "py_gt (PBool b) n = Inr ((if b then 1 else 0) > n)"
| "py_gt (PInt i) n = Inr (i > n)"
| "py_gt (PFloat r) n = Inr (r > of_int n)"
| "py_gt v n = Inl TypeError"

text \<open>\<^verbatim>\<open>len(v)\<close>; a str counts its characters.\<close>

fun py_len :: "pyval \<Rightarrow> py_error + nat" where
  "py_len (PStr s) = Inr (length s)"
| "py_len (PList xs) = Inr (length xs)"
| "py_len (PDict kvs) = Inr (length kvs)"
| "py_len v = Inl TypeError"

text \<open>\<^verbatim>\<open>for x in v\<close>: the characters of a str, the elements of a list, the keys of a dict.\<close>

fun py_iter :: "pyval \<Rightarrow> py_error + pyval list" where
  "py_iter (PStr s) = Inr (map (\<lambda>c. PStr [c]) s)"
| "py_iter (PList xs) = Inr xs"
| "py_iter (PDict kvs) = Inr (map (\<lambda>kv. PStr (fst kv)) kvs)"
| "py_iter v = Inl TypeError"

text \<open>A value in an f-string: a str as it is, any other value by \<^verbatim>\<open>str\<close>.\<close>

definition py_format :: "world \<Rightarrow> pyval \<Rightarrow> string" where
  "py_format w v = (case v of PStr s \<Rightarrow> s | _ \<Rightarrow> py_repr w v)"

text \<open>
  A value as the key of a dict: numbers that are equal are one key (\<^verbatim>\<open>True == 1 == 1.0\<close>);
  a list or a dict is unhashable.
\<close>

datatype pykey = KNone | KNum rat | KStr string

fun to_key :: "pyval \<Rightarrow> pykey option" where
  "to_key PNone = Some KNone"
| "to_key (PBool b) = Some (KNum (if b then 1 else 0))"
| "to_key (PInt i) = Some (KNum (of_int i))"
| "to_key (PFloat r) = Some (KNum r)"
| "to_key (PStr s) = Some (KStr s)"
| "to_key (PList xs) = None"
| "to_key (PDict kvs) = None"

text \<open>\<^verbatim>\<open>d.get(k)\<close>, which is None for a key that is absent.\<close>

definition dict_get :: "pydict \<Rightarrow> string \<Rightarrow> pyval" where
  "dict_get d k = dict_get_or d k PNone"

subsection \<open>OmniplexJournalismEthics\<close>

definition check_story_ethics :: "pydict \<Rightarrow> bool" where
  "check_story_ethics story = True"

text \<open>
  \<^verbatim>\<open>return publication.get('verified_facts') and publication.get('sources_cited', 0) > 0\<close>:
  the first operand when it is falsy, else the comparison.
\<close>

definition approve_publication :: "pydict \<Rightarrow> py_error + pyval" where
  "approve_publication publication =
     (let facts = dict_get publication ''verified_facts'' in
      if \<not> truthy facts then Inr facts
      else case py_gt (dict_get_or publication ''sources_cited'' (PInt 0)) 0 of
             Inl e \<Rightarrow> Inl e
           | Inr b \<Rightarrow> Inr (PBool b))"

subsection \<open>JournalismPipeline: the helper methods\<close>

definition check_parliament :: "pydict list" where
  "check_parliament = [[(''headline'', PStr ''New Climate Bill Debate''),
     (''source'', PStr ''parliament''), (''importance'', PInt 8)]]"

definition check_bbc :: "pydict list" where
  "check_bbc = [[(''headline'', PStr ''Breaking: Economic Update''),
     (''source'', PStr ''bbc''), (''importance'', PInt 7)]]"

definition check_x_twitter :: "pydict list" where
  "check_x_twitter = [[(''headline'', PStr ''Trending: NHS Discussion''),
     (''source'', PStr ''twitter''), (''importance'', PInt 6)]]"

text \<open>
  \<^verbatim>\<open>'political' if 'parliament' in story.get('source', '') else 'general'\<close>
\<close>

definition classify_story :: "pydict \<Rightarrow> py_error + string" where
  "classify_story story =
     (case py_in ''parliament'' (dict_get_or story ''source'' (PStr [])) of
        Inl e \<Rightarrow> Inl e
      | Inr b \<Rightarrow> Inr (if b then ''political'' else ''general''))"

definition identify_stakeholders :: "pydict \<Rightarrow> string list" where
  "identify_stakeholders story = [''Government'', ''Opposition'', ''Public'']"

text \<open>\<^verbatim>\<open>'high' if story.get('importance', 0) > 7 else 'medium'\<close>\<close>

definition assess_impact :: "pydict \<Rightarrow> py_error + string" where
  "assess_impact story =
     (case py_gt (dict_get_or story ''importance'' (PInt 0)) 7 of
        Inl e \<Rightarrow> Inl e
      | Inr b \<Rightarrow> Inr (if b then ''high'' else ''medium''))"

definition extract_facts :: "pydict \<Rightarrow> pydict list" where
  "extract_facts analysis = [[(''claim'', PStr ''Sample fact''), (''source'', PStr ''test'')]]"

definition check_primary_source :: "pydict \<Rightarrow> bool" where
  "check_primary_source fct = True"

definition check_secondary_source :: "pydict \<Rightarrow> bool" where
  "check_secondary_source fct = True"

definition check_historical_pattern :: "pydict \<Rightarrow> bool" where
  "check_historical_pattern fct = True"

definition check_source_credibility :: "pydict \<Rightarrow> rat" where
  "check_source_credibility source = 8 / 10"

definition call_parliament_api :: "pydict \<Rightarrow> pyval" where
  "call_parliament_api analysis = PDict [(''bills'', PList []), (''votes'', PList [])]"

definition call_gov_api :: "pydict \<Rightarrow> pyval" where
  "call_gov_api analysis = PDict [(''statements'', PList [])]"

definition call_news_apis :: "pydict \<Rightarrow> pyval" where
  "call_news_apis analysis = PDict [(''articles'', PList [])]"

definition get_historical_context :: "pydict \<Rightarrow> pyval" where
  "get_historical_context analysis = PStr ''Historical context here''"

definition get_stakeholder_positions :: "pydict \<Rightarrow> pyval" where
  "get_stakeholder_positions analysis = PDict []"

definition find_related_events :: "pydict \<Rightarrow> pyval" where
  "find_related_events analysis = PList []"

definition project_implications :: "pydict \<Rightarrow> pyval" where
  "project_implications analysis = PStr ''Future implications''"

definition calculate_bias :: "pyval \<Rightarrow> rat" where
  "calculate_bias source = 0"

text \<open>\<^verbatim>\<open>f"Summary of {analysis.get('headline', 'story')}"\<close>\<close>

definition generate_summary :: "world \<Rightarrow> pydict \<Rightarrow> string" where
  "generate_summary w analysis =
     ''Summary of '' @ py_format w (dict_get_or analysis ''headline'' (PStr ''story''))"

subsection \<open>JournalismPipeline: the eight arms\<close>

text \<open>
  The importance a story is sorted by, \<^verbatim>\<open>x.get('importance', 0)\<close>; the stories of the
  three helpers carry ints.
\<close>

definition importance :: "pydict \<Rightarrow> int" where
  "importance story = (case dict_get_or story ''importance'' (PInt 0) of PInt i \<Rightarrow> i | _ \<Rightarrow> 0)"

text \<open>
  ARM 1, \<^verbatim>\<open>hunt_stories\<close>: the three helpers' stories, sorted by importance, highest first
  (Python's sort is stable, also with \<^verbatim>\<open>reverse=True\<close>), the first three kept.
\<close>

definition hunt_stories :: "pyval \<Rightarrow> pydict list" where
  "hunt_stories sources =
     take 3 (sort_key (\<lambda>story. - importance story)
               (check_parliament @ check_bbc @ check_x_twitter))"

text \<open>
  ARM 2, \<^verbatim>\<open>analyze_story\<close>. The dict display evaluates its values in order: the type
  before the impact. \<open>t\<close> is the reading of the clock.
\<close>

definition analyze_story :: "datetime \<Rightarrow> pydict \<Rightarrow> py_error + pydict" where
  "analyze_story t story =
     (case classify_story story of
        Inl e \<Rightarrow> Inl e
      | Inr ty \<Rightarrow>
          (case assess_impact story of
             Inl e \<Rightarrow> Inl e
           | Inr impact \<Rightarrow>
               let analysis =
                 [(''headline'', dict_get story ''headline''),
                  (''source'', dict_get story ''source''),
                  (''timestamp'', PStr (isoformat t)),
                  (''type'', PStr ty),
                  (''stakeholders'', PList (map PStr (identify_stakeholders story))),
                  (''impact'', PStr impact),
                  (''requires_verification'', PBool True)]
               in if \<not> check_story_ethics analysis then Inr [] else Inr analysis))"

text \<open>
  ARM 3, \<^verbatim>\<open>fact_check\<close>: the facts that pass the three checks, then
  \<^verbatim>\<open>
    analysis['verified_facts'] = verified_facts
    analysis['verification_rate'] = len(verified_facts) / len(facts_to_check)
  \<close>
  where the division raises when there is no fact to check.
\<close>

definition fact_check :: "pydict \<Rightarrow> py_error + pydict" where
  "fact_check analysis =
     (let facts_to_check = extract_facts analysis;
          verified_facts = filter (\<lambda>fct. check_primary_source fct
              \<and> check_secondary_source fct \<and> check_historical_pattern fct) facts_to_check;
          analysis1 = dict_set analysis ''verified_facts'' (PList (map PDict verified_facts))
      in if length facts_to_check = 0 then Inl ZeroDivisionError
         else Inr (dict_set analysis1 ''verification_rate''
                (PFloat (of_nat (length verified_facts) / of_nat (length facts_to_check)))))"

text \<open>
  ARM 4, \<^verbatim>\<open>verify_sources\<close>, for each source:
  \<^verbatim>\<open>
    credibility = self.check_source_credibility(source)
    sha_valid = self.sha.verify(source['id'], source['content'])
    source['credibility'] = credibility
    source['sha_verified'] = sha_valid
  \<close>
  \<^verbatim>\<open>source['id']\<close> raises TypeError when the source is no dict and KeyError when the key is
  absent; in \<^verbatim>\<open>verify\<close>, \<^verbatim>\<open>data.encode()\<close> raises AttributeError when the content is no
  str, and then \<^verbatim>\<open>key in self.hashes\<close> raises TypeError when the id is unhashable.
\<close>

fun verify_sources_loop ::
    "world \<Rightarrow> (pykey \<rightharpoonup> string) \<Rightarrow> pyval list \<Rightarrow> py_error + (pyval list \<times> (pykey \<rightharpoonup> string))" where
  "verify_sources_loop w hs [] = Inr ([], hs)"
| "verify_sources_loop w hs (source # rest) =
     (case source of
        PDict d \<Rightarrow>
          (case map_of d ''id'' of
             None \<Rightarrow> Inl (KeyError ''id'')
           | Some source_id \<Rightarrow>
               (case map_of d ''content'' of
                  None \<Rightarrow> Inl (KeyError ''content'')
                | Some (PStr content) \<Rightarrow>
                    (case to_key source_id of
                       None \<Rightarrow> Inl TypeError
                     | Some key \<Rightarrow>
                         let credibility = check_source_credibility d;
                             (sha_valid, hs1) = verify_jp (sha256_hex w) hs key content;
                             d1 = dict_set d ''credibility'' (PFloat credibility);
                             d2 = dict_set d1 ''sha_verified'' (PBool sha_valid)
                         in (case verify_sources_loop w hs1 rest of
                               Inl e \<Rightarrow> Inl e
                             | Inr (rest', hs2) \<Rightarrow> Inr (PDict d2 # rest', hs2)))
                | Some other \<Rightarrow> Inl AttributeError))
      | other \<Rightarrow> Inl TypeError)"

text \<open>
  The sources are updated in place: when \<^verbatim>\<open>analysis['sources']\<close> is a list, the analysis
  returned holds the updated sources.
\<close>

definition verify_sources ::
    "world \<Rightarrow> (pykey \<rightharpoonup> string) \<Rightarrow> pydict \<Rightarrow> py_error + (pydict \<times> (pykey \<rightharpoonup> string))" where
  "verify_sources w hs analysis =
     (case py_iter (dict_get_or analysis ''sources'' (PList [])) of
        Inl e \<Rightarrow> Inl e
      | Inr sources \<Rightarrow>
          (case verify_sources_loop w hs sources of
             Inl e \<Rightarrow> Inl e
           | Inr (sources', hs') \<Rightarrow>
               (case map_of analysis ''sources'' of
                  Some (PList xs) \<Rightarrow> Inr (dict_set analysis ''sources'' (PList sources'), hs')
                | _ \<Rightarrow> Inr (analysis, hs'))))"

text \<open>
  The key and the data of the call \<^verbatim>\<open>self.sha.verify(source['id'], source['content'])\<close>
  for a source, when the call can be made: the source is a dict, its id is hashable and
  its content a str.
\<close>

fun source_entry :: "pyval \<Rightarrow> (pykey \<times> string) option" where
  "source_entry (PDict d) =
     (case (map_of d ''id'', map_of d ''content'') of
        (Some source_id, Some (PStr content)) \<Rightarrow>
          (case to_key source_id of
             Some key \<Rightarrow> Some (key, content)
           | None \<Rightarrow> None)
      | other \<Rightarrow> None)"
| "source_entry other = None"

text \<open>ARM 5, \<^verbatim>\<open>aggregate_apis\<close>.\<close>

definition aggregate_apis :: "pydict \<Rightarrow> py_error + pydict" where
  "aggregate_apis analysis =
     (case py_in ''parliament'' (dict_get_or analysis ''type'' (PStr [])) of
        Inl e \<Rightarrow> Inl e
      | Inr b \<Rightarrow>
          let api_data0 = (if b then [(''parliament'', call_parliament_api analysis)] else []);
              api_data1 = dict_set api_data0 ''gov_uk'' (call_gov_api analysis);
              api_data = dict_set api_data1 ''news'' (call_news_apis analysis)
          in Inr (dict_set analysis ''api_data'' (PDict api_data)))"

text \<open>ARM 6, \<^verbatim>\<open>build_context\<close>.\<close>

definition build_context :: "pydict \<Rightarrow> pydict" where
  "build_context analysis =
     (let context_layers =
        [(''historical'', get_historical_context analysis),
         (''stakeholder_positions'', get_stakeholder_positions analysis),
         (''related_events'', find_related_events analysis),
         (''future_implications'', project_implications analysis)]
      in dict_set analysis ''context'' (PDict context_layers))"

text \<open>
  ARM 7, \<^verbatim>\<open>detect_bias\<close>: each source goes to the left (bias below -0.3), to the right
  (bias above 0.3) or to the centre.
\<close>

definition detect_bias :: "pydict \<Rightarrow> py_error + pydict" where
  "detect_bias analysis =
     (case py_iter (dict_get_or analysis ''sources'' (PList [])) of
        Inl e \<Rightarrow> Inl e
      | Inr sources \<Rightarrow>
          let left = filter (\<lambda>source. calculate_bias source < - (3 / 10)) sources;
              right = filter (\<lambda>source. \<not> calculate_bias source < - (3 / 10)
                                \<and> calculate_bias source > 3 / 10) sources;
              center = filter (\<lambda>source. \<not> calculate_bias source < - (3 / 10)
                                \<and> \<not> calculate_bias source > 3 / 10) sources;
              bias_analysis =
                [(''left_sources'', PList left),
                 (''center_sources'', PList center),
                 (''right_sources'', PList right),
                 (''bias_score'', PInt 0)]
          in Inr (dict_set analysis ''bias_analysis'' (PDict bias_analysis)))"

text \<open>
  ARM 8, \<^verbatim>\<open>prepare_publication\<close>:
  \<^verbatim>\<open>
    publication = {
        'headline': analysis['headline'],
        'summary': self.generate_summary(analysis),
        'verified_facts': analysis.get('verified_facts', []),
        'sources_cited': len(analysis.get('sources', [])),
        'bias_disclosure': analysis.get('bias_analysis', {}),
        'publication_time': datetime.now().isoformat(),
        'website_target': 'omniplex.earth',
        'sha_signature': self.sha.compute_hash(json.dumps(analysis))
    }
    if self.ethics.approve_publication(publication):
        publication['status'] = 'READY_TO_PUBLISH'
    else:
        publication['status'] = 'NEEDS_HUMAN_REVIEW'
    return publication
  \<close>
  \<^verbatim>\<open>analysis['headline']\<close> raises KeyError when the key is absent. \<open>t\<close> is the reading of the
  clock.
\<close>

definition prepare_publication :: "world \<Rightarrow> datetime \<Rightarrow> pydict \<Rightarrow> py_error + pydict" where
  "prepare_publication w t analysis =
     (case map_of analysis ''headline'' of
        None \<Rightarrow> Inl (KeyError ''headline'')
      | Some headline \<Rightarrow>
          (case py_len (dict_get_or analysis ''sources'' (PList [])) of
             Inl e \<Rightarrow> Inl e
           | Inr sources_cited \<Rightarrow>
               let publication =
                 [(''headline'', headline),
                  (''summary'', PStr (generate_summary w analysis)),
                  (''verified_facts'', dict_get_or analysis ''verified_facts'' (PList [])),
                  (''sources_cited'', PInt (int sources_cited)),
                  (''bias_disclosure'', dict_get_or analysis ''bias_analysis'' (PDict [])),
                  (''publication_time'', PStr (isoformat t)),
                  (''website_target'', PStr ''omniplex.earth''),
                  (''sha_signature'',
                     PStr (compute_hash (sha256_hex w) (json_dumps w False (PDict analysis))))]
               in (case approve_publication publication of
                     Inl e \<Rightarrow> Inl e
                   | Inr approved \<Rightarrow>
                       if truthy approved
                       then Inr (dict_set publication ''status'' (PStr ''READY_TO_PUBLISH''))
                       else Inr (dict_set publication ''status'' (PStr ''NEEDS_HUMAN_REVIEW'')))))"

subsection \<open>run\_journalism\_pipeline\<close>

text \<open>
  The pipeline object: the verifier's dict and the number of readings of the clock so far.
\<close>

record pipeline =
  p_sha :: "pykey \<rightharpoonup> string"
  p_ticks :: nat

text \<open>\<^verbatim>\<open>self.arms\<close>: the names in order, each with its method.\<close>

datatype arm_function =
    Hunt_stories | Analyze_story | Fact_check | Verify_sources
  | Aggregate_apis | Build_context | Detect_bias | Prepare_publication

definition pipeline_arms :: "(string \<times> arm_function) list" where
  "pipeline_arms =
     [(''1_story_hunter'', Hunt_stories),
      (''2_story_analyzer'', Analyze_story),
      (''3_fact_checker'', Fact_check),
      (''4_source_verifier'', Verify_sources),
      (''5_api_aggregator'', Aggregate_apis),
      (''6_context_builder'', Build_context),
      (''7_bias_detector'', Detect_bias),
      (''8_publisher'', Prepare_publication)]"

text \<open>
  \<^verbatim>\<open>arm_function(result)\<close>. The methods are written for a dict; on a value that is no dict
  the first use of it raises: \<^verbatim>\<open>.get\<close> an AttributeError, a subscript a TypeError.
\<close>

definition call_arm ::
    "world \<Rightarrow> arm_function \<Rightarrow> pyval \<Rightarrow> pipeline \<Rightarrow> py_error + (pyval \<times> pipeline)" where
  "call_arm w f v p =
     (case f of
        Hunt_stories \<Rightarrow> Inr (PList (map PDict (hunt_stories v)), p)
      | Analyze_story \<Rightarrow>
          (case v of
             PDict d \<Rightarrow>
               (case analyze_story (now w (p_ticks p)) d of
                  Inl e \<Rightarrow> Inl e
                | Inr a \<Rightarrow> Inr (PDict a, p\<lparr>p_ticks := p_ticks p + 1\<rparr>))
           | _ \<Rightarrow> Inl AttributeError)
      | Fact_check \<Rightarrow>
          (case v of
             PDict d \<Rightarrow> (case fact_check d of Inl e \<Rightarrow> Inl e | Inr a \<Rightarrow> Inr (PDict a, p))
           | _ \<Rightarrow> Inl AttributeError)
      | Verify_sources \<Rightarrow>
          (case v of
             PDict d \<Rightarrow>
               (case verify_sources w (p_sha p) d of
                  Inl e \<Rightarrow> Inl e
                | Inr (a, hs) \<Rightarrow> Inr (PDict a, p\<lparr>p_sha := hs\<rparr>))
           | _ \<Rightarrow> Inl AttributeError)
      | Aggregate_apis \<Rightarrow>
          (case v of
             PDict d \<Rightarrow> (case aggregate_apis d of Inl e \<Rightarrow> Inl e | Inr a \<Rightarrow> Inr (PDict a, p))
           | _ \<Rightarrow> Inl AttributeError)
      | Build_context \<Rightarrow>
          (case v of
             PDict d \<Rightarrow> Inr (PDict (build_context d), p)
           | _ \<Rightarrow> Inl TypeError)
      | Detect_bias \<Rightarrow>
          (case v of
             PDict d \<Rightarrow> (case detect_bias d of Inl e \<Rightarrow> Inl e | Inr a \<Rightarrow> Inr (PDict a, p))
           | _ \<Rightarrow> Inl AttributeError)
      | Prepare_publication \<Rightarrow>
          (case v of
             PDict d \<Rightarrow>
               (case prepare_publication w (now w (p_ticks p)) d of
                  Inl e \<Rightarrow> Inl e
                | Inr a \<Rightarrow> Inr (PDict a, p\<lparr>p_ticks := p_ticks p + 1\<rparr>))
           | _ \<Rightarrow> Inl TypeError))"

text \<open>
  The loop of \<^verbatim>\<open>run_journalism_pipeline\<close>:
  \<^verbatim>\<open>
    for arm_name, arm_function in pipeline.arms.items():
        if arm_name == '1_story_hunter':
            continue
        result = arm_function(result)
  \<close>
\<close>

fun pipeline_loop ::
    "world \<Rightarrow> (string \<times> arm_function) list \<Rightarrow> pyval \<Rightarrow> pipeline \<Rightarrow> py_error + (pyval \<times> pipeline)" where
  "pipeline_loop w [] result p = Inr (result, p)"
| "pipeline_loop w ((arm_name, arm_fn) # rest) result p =
     (if arm_name = ''1_story_hunter'' then pipeline_loop w rest result p
      else case call_arm w arm_fn result p of
             Inl e \<Rightarrow> Inl e
           | Inr (result', p') \<Rightarrow> pipeline_loop w rest result' p')"

text \<open>
  \<^verbatim>\<open>run_journalism_pipeline\<close>: a new pipeline; None when no story is found; else the first
  story through the arms. \<^verbatim>\<open>story['headline']\<close> is read for a line of output.
\<close>

definition run_journalism_pipeline :: "world \<Rightarrow> py_error + (pyval option \<times> pipeline)" where
  "run_journalism_pipeline w =
     (let p = \<lparr>p_sha = Map.empty, p_ticks = 0\<rparr>;
          stories = hunt_stories (PDict [])
      in case stories of
           [] \<Rightarrow> Inr (None, p)
         | story # others \<Rightarrow>
             (case map_of story ''headline'' of
                None \<Rightarrow> Inl (KeyError ''headline'')
              | Some headline \<Rightarrow>
                  (case pipeline_loop w pipeline_arms (PDict story) p of
                     Inl e \<Rightarrow> Inl e
                   | Inr (result, p') \<Rightarrow> Inr (Some result, p'))))"

section \<open>A world to evaluate in\<close>

text \<open>
  To evaluate the operations at concrete inputs the world's functions have to be given.
  The digest is \<open>plain_digest\<close>; the serialiser writes a dict of strings as its
  \<open>key=value;\<close> pairs; the clock's \<open>n\<close>-th reading is ten seconds times \<open>n\<close> after
  10:00:00 (the ten seconds that \<^verbatim>\<open>run\<close> sleeps between two rounds), so that the first 359
  readings fall in one hour and no two of them give the same timestamp.
\<close>

definition plain_dumps :: "bool \<Rightarrow> pyval \<Rightarrow> string" where
  "plain_dumps sort_keys v =
     (case v of
        PDict kvs \<Rightarrow>
          concat (map (\<lambda>(k, x). k @ ''='' @ (case x of PStr s \<Rightarrow> s | _ \<Rightarrow> ''?'') @ '';'') kvs)
      | PStr s \<Rightarrow> s
      | _ \<Rightarrow> ''?'')"

definition two_digits :: "nat \<Rightarrow> string" where
  "two_digits k = [digit_char (k div 10 mod 10), digit_char (k mod 10)]"

definition ticking_clock :: "nat \<Rightarrow> datetime" where
  "ticking_clock n =
     \<lparr>micros = 10000000 * int n, hour = 10,
      isoformat = ''2025-06-01T10:'' @ two_digits (10 * n div 60) @ '':''
                    @ two_digits (10 * n mod 60)\<rparr>"

definition plain_world :: world where
  "plain_world =
     \<lparr>sha256_hex = plain_digest, json_dumps = plain_dumps, py_repr = (\<lambda>v. ''?''),
      now = ticking_clock\<rparr>"

text \<open>
  The brain after \<^verbatim>\<open>process_arm\<close> has been called \<open>k\<close> times in a row for the arm
  bills\_monitor, from the initial state (were a call to raise, the brain is taken as it
  was before that call).
\<close>

fun bills_calls :: "nat \<Rightarrow> brain" where
  "bills_calls 0 = init_brain plain_world"
| "bills_calls (Suc k) =
     (case process_arm plain_world ''bills_monitor'' (bills_calls k) of
        Inr (res, s') \<Rightarrow> s'
      | Inl e \<Rightarrow> bills_calls k)"

text \<open>
  The brain after \<open>k\<close> passes through the body of the loop of \<^verbatim>\<open>run\<close>, from its initial
  state: in each pass the clock is read for the line of output, then comes the drift check,
  then the round of \<^verbatim>\<open>gather_intelligence\<close>.
\<close>

fun run_rounds :: "nat \<Rightarrow> brain" where
  "run_rounds 0 = init_brain plain_world"
| "run_rounds (Suc k) =
     (case gather_intelligence plain_world
             (snd (drift_check plain_world (snd (datetime_now plain_world (run_rounds k))))) of
        Inr (g, s') \<Rightarrow> s'
      | Inl e \<Rightarrow> run_rounds k)"

section \<open>The ledger: idempotent re-record, rejected mismatch\<close>

lemma verify_jp_same:
  "hs key = Some (compute_hash H data) \<Longrightarrow> verify_jp H hs key data = (True, hs)"
  by (simp add: verify_jp_def)

lemma verify_op_same:
  "hs key = Some (compute_hash H data) \<Longrightarrow> verify_op H hs key data = (True, hs)"
  by (simp add: verify_op_def fun_upd_idem)

lemma verify_jp_differs:
  "hs key = Some stored \<Longrightarrow> stored \<noteq> compute_hash H data \<Longrightarrow>
   verify_jp H hs key data = (False, hs)"
  by (simp add: verify_jp_def)

lemma verify_op_differs:
  "hs key = Some stored \<Longrightarrow> stored \<noteq> compute_hash H data \<Longrightarrow>
   verify_op H hs key data = (False, hs)"
  by (simp add: verify_op_def)

lemma verify_jp_after_success:
  "fst (verify_jp H hs key data) \<Longrightarrow>
   snd (verify_jp H hs key data) key = Some (compute_hash H data)"
  by (auto simp: verify_jp_def Let_def split: option.splits)

lemma verify_op_after_success:
  "fst (verify_op H hs key data) \<Longrightarrow>
   snd (verify_op H hs key data) key = Some (compute_hash H data)"
  by (auto simp: verify_op_def Let_def split: option.splits if_splits)

text \<open>
  C1. In both verifiers, for every stored dict and key: when the hash presented is the one
  already recorded for the key, the call returns True and the dict is unchanged; a call
  that succeeded, made again with content of the same hash, returns True and changes
  nothing; and when the hash presented differs from the recorded one, the call returns
  False and the recorded hash stays as it was.
\<close>

theorem verify_rerecord_noop_mismatch_rejected:
  "(hs key = Some (compute_hash H data) \<longrightarrow>
      verify_jp H hs key data = (True, hs) \<and> verify_op H hs key data = (True, hs))
   \<and> (fst (verify_jp H hs key data) \<and> compute_hash H data' = compute_hash H data \<longrightarrow>
      verify_jp H (snd (verify_jp H hs key data)) key data'
        = (True, snd (verify_jp H hs key data)))
   \<and> (fst (verify_op H hs key data) \<and> compute_hash H data' = compute_hash H data \<longrightarrow>
      verify_op H (snd (verify_op H hs key data)) key data'
        = (True, snd (verify_op H hs key data)))
   \<and> (hs key = Some stored \<and> stored \<noteq> compute_hash H data \<longrightarrow>
      verify_jp H hs key data = (False, hs) \<and> verify_op H hs key data = (False, hs))"
proof (intro conjI impI)
  assume "hs key = Some (compute_hash H data)"
  then show "verify_jp H hs key data = (True, hs)" by (rule verify_jp_same)
next
  assume "hs key = Some (compute_hash H data)"
  then show "verify_op H hs key data = (True, hs)" by (rule verify_op_same)
next
  assume a: "fst (verify_jp H hs key data) \<and> compute_hash H data' = compute_hash H data"
  then have "snd (verify_jp H hs key data) key = Some (compute_hash H data')"
    by (simp add: verify_jp_after_success)
  then show "verify_jp H (snd (verify_jp H hs key data)) key data'
      = (True, snd (verify_jp H hs key data))"
    by (rule verify_jp_same)
next
  assume a: "fst (verify_op H hs key data) \<and> compute_hash H data' = compute_hash H data"
  then have "snd (verify_op H hs key data) key = Some (compute_hash H data')"
    by (simp add: verify_op_after_success)
  then show "verify_op H (snd (verify_op H hs key data)) key data'
      = (True, snd (verify_op H hs key data))"
    by (rule verify_op_same)
next
  assume "hs key = Some stored \<and> stored \<noteq> compute_hash H data"
  then show "verify_jp H hs key data = (False, hs)" by (simp add: verify_jp_differs)
next
  assume "hs key = Some stored \<and> stored \<noteq> compute_hash H data"
  then show "verify_op H hs key data = (False, hs)" by (simp add: verify_op_differs)
qed

theorem verify_rerecord_noop_mismatch_rejected_witness:
  "[''item-1'' \<mapsto> ''alpha''] ''item-1'' = Some (compute_hash plain_digest ''alpha'')
   \<and> verify_jp plain_digest [''item-1'' \<mapsto> ''alpha''] ''item-1'' ''alpha''
       = (True, [''item-1'' \<mapsto> ''alpha''])
   \<and> verify_op plain_digest [''item-1'' \<mapsto> ''alpha''] ''item-1'' ''alpha''
       = (True, [''item-1'' \<mapsto> ''alpha''])
   \<and> ''alpha'' \<noteq> compute_hash plain_digest ''omega''
   \<and> verify_jp plain_digest [''item-1'' \<mapsto> ''alpha''] ''item-1'' ''omega''
       = (False, [''item-1'' \<mapsto> ''alpha''])
   \<and> verify_op plain_digest [''item-1'' \<mapsto> ''alpha''] ''item-1'' ''omega''
       = (False, [''item-1'' \<mapsto> ''alpha''])"
  using verify_rerecord_noop_mismatch_rejected
          [of "[''item-1'' \<mapsto> ''alpha'']" "''item-1''" plain_digest "''alpha''" "''alpha''" "''alpha''"]
        verify_rerecord_noop_mismatch_rejected
          [of "[''item-1'' \<mapsto> ''alpha'']" "''item-1''" plain_digest "''omega''" "''omega''" "''alpha''"]
  by (simp add: compute_hash_def plain_digest_def)

section \<open>What verify writes\<close>

text \<open>
  C2, as the claim states it, fails: on a key that is not yet recorded, each verifier
  stores the hash of the content, so the dict after the call differs from the dict before.
\<close>

theorem verify_mutates_on_new_key:
  "snd (verify_jp plain_digest Map.empty ''item-1'' ''alpha'') ''item-1'' = Some ''alpha''
   \<and> snd (verify_op plain_digest Map.empty ''item-1'' ''alpha'') ''item-1'' = Some ''alpha''
   \<and> (Map.empty :: hashes) ''item-1'' = None
   \<and> snd (verify_jp plain_digest Map.empty ''item-1'' ''alpha'') \<noteq> (Map.empty :: hashes)
   \<and> snd (verify_op plain_digest Map.empty ''item-1'' ''alpha'') \<noteq> (Map.empty :: hashes)"
  by (simp add: verify_jp_def verify_op_def compute_hash_def plain_digest_def)

text \<open>
  C2, amended. Each verifier leaves its dict as it was whenever the key is already recorded,
  whether the content matches the recorded hash or not.
\<close>

theorem verify_recorded_key_unchanged:
  "hs key \<noteq> None \<Longrightarrow>
   snd (verify_jp H hs key data) = hs \<and> snd (verify_op H hs key data) = hs"
  by (auto simp: verify_jp_def verify_op_def Let_def fun_upd_idem)

theorem verify_recorded_key_unchanged_witness:
  "[''item-1'' \<mapsto> ''alpha''] ''item-1'' \<noteq> None
   \<and> snd (verify_jp plain_digest [''item-1'' \<mapsto> ''alpha''] ''item-1'' ''omega'')
       = [''item-1'' \<mapsto> ''alpha'']
   \<and> snd (verify_op plain_digest [''item-1'' \<mapsto> ''alpha''] ''item-1'' ''omega'')
       = [''item-1'' \<mapsto> ''alpha'']"
  using verify_recorded_key_unchanged
          [of "[''item-1'' \<mapsto> ''alpha'']" "''item-1''" plain_digest "''omega''"]
  by simp

text \<open>
  C10. For a key that the dict does not hold, each verifier returns True whatever the
  content, and afterwards the dict binds the key to the hash of that content (and is
  otherwise as before).
\<close>

theorem verify_first_use_accepts_and_records:
  "hs key = None \<Longrightarrow>
   verify_jp H hs key data = (True, hs(key \<mapsto> compute_hash H data))
   \<and> verify_op H hs key data = (True, hs(key \<mapsto> compute_hash H data))"
  by (simp add: verify_jp_def verify_op_def)

theorem verify_first_use_accepts_and_records_witness:
  "(Map.empty :: hashes) ''item-1'' = None
   \<and> verify_jp plain_digest Map.empty ''item-1'' ''tampered''
       = (True, [''item-1'' \<mapsto> ''tampered''])
   \<and> verify_op plain_digest Map.empty ''item-1'' ''tampered''
       = (True, [''item-1'' \<mapsto> ''tampered''])"
  using verify_first_use_accepts_and_records
          [of "Map.empty :: hashes" "''item-1''" plain_digest "''tampered''"]
  by (simp add: compute_hash_def plain_digest_def)

section \<open>The engine: what the operations of the brain do to its state\<close>

lemma check_always: "check action data = True"
  by (simp add: check_def human_judgment_preserved_def zero_manipulation_check_def)

lemma frozen_freeze: "frozen (freeze reason s)"
  by (simp add: freeze_def)

text \<open>
  \<^verbatim>\<open>process_arm\<close> in one piece: the data it fetches always passes the source, structure and
  pattern checks, so the call fails exactly when the verifier rejects the data.
\<close>

lemma process_arm_eq:
  "process_arm w arm_name s =
     (let data = [(''type'', arm_name),
                  (''source'', ''api.parliament.uk'' @ dict_get_or mock_endpoints arm_name ''/unknown''),
                  (''timestamp'', isoformat (now w (ticks s))),
                  (''data'', ''Mock Parliament data from '' @ arm_name)];
          r = verify_op (sha256_hex w) (sha s)
                (arm_name @ ''_'' @ str_of_nat (hour (now w (Suc (ticks s)))))
                (json_dumps w True (str_dict data));
          s2 = s\<lparr>ticks := ticks s + 2, sha := snd r\<rparr>
      in if fst r then Inr (data, s2)
         else case map_of (arms s) arm_name of
                None \<Rightarrow> Inl (KeyError arm_name)
              | Some a \<Rightarrow>
                  if 3 \<le> errors a + 1
                  then Inr ([], freeze (''Arm '' @ arm_name @ '' failed 3 times'')
                                  (s2\<lparr>arms := bump_errors arm_name (arms s)\<rparr>))
                  else Inr ([], s2\<lparr>arms := bump_errors arm_name (arms s)\<rparr>))"
  by (simp add: process_arm_def check_always fetch_parliament_data_def triple_verify_def
      datetime_now_def check_expected_pattern_def dict_get_or_def Let_def split_beta
      split: option.splits)

lemma process_arm_frozen_iff:
  assumes "process_arm w arm_name s = Inr (res, s')" and "map_of (arms s) arm_name = Some a"
  shows "frozen s' = (frozen s \<or> (res = [] \<and> 3 \<le> errors a + 1))"
  using assms
  by (auto simp: process_arm_eq Let_def freeze_def split: if_splits)

lemma process_arm_keeps_frozen:
  "process_arm w arm_name s = Inr (res, s') \<Longrightarrow> frozen s \<Longrightarrow> frozen s'"
  by (auto simp: process_arm_eq Let_def freeze_def split: if_splits option.splits)

lemma map_fst_bump_errors: "map fst (bump_errors arm_name as) = map fst as"
  by (induction as) (auto simp: bump_errors_def)

lemma map_fst_freeze: "map fst (arms (freeze reason s)) = map fst (arms s)"
  by (simp add: freeze_def split_beta comp_def)

lemma map_of_bump_errors:
  "map_of (bump_errors arm_name as) arm_name
     = map_option (\<lambda>a. a\<lparr>errors := errors a + 1\<rparr>) (map_of as arm_name)"
  by (induction as) (auto simp: bump_errors_def)

lemma map_of_freeze:
  "map_of (arms (freeze reason s)) n
     = map_option (\<lambda>a. a\<lparr>status := ''frozen''\<rparr>) (map_of (arms s) n)"
  by (simp add: freeze_def map_of_map)

lemma process_arm_keys:
  "process_arm w arm_name s = Inr (res, s') \<Longrightarrow> map fst (arms s') = map fst (arms s)"
  by (auto simp: process_arm_eq Let_def map_fst_freeze map_fst_bump_errors
      split: if_splits option.splits)

lemma process_arm_returns:
  "map_of (arms s) arm_name \<noteq> None \<Longrightarrow> \<exists>res s'. process_arm w arm_name s = Inr (res, s')"
  by (auto simp: process_arm_eq Let_def)


lemma drift_check_frozen_iff:
  "frozen (snd (drift_check w s))
     = (frozen s \<or> (thirty_minutes < micros (now w (ticks s)) - micros (last_drift s)
                      \<and> length (arms s) \<noteq> 8))"
  by (simp add: drift_check_def datetime_now_def freeze_def check_parliament_focus_def
      Let_def split_beta)

lemma triple_verify_frozen: "frozen (snd (triple_verify w d s)) = frozen s"
  by (simp add: triple_verify_def datetime_now_def Let_def split_beta)

lemma gather_loop_keeps_frozen:
  "gather_loop w names intelligence s = Inr (i', s') \<Longrightarrow> frozen s \<Longrightarrow> frozen s'"
proof (induction names arbitrary: intelligence s)
  case Nil
  then show ?case by simp
next
  case (Cons n names)
  then show ?case
    by (auto split: option.splits if_splits sum.splits dest: process_arm_keeps_frozen)
qed

text \<open>The loop over the arms' own names never raises: every name it meets is an arm.\<close>

lemma gather_loop_returns:
  "set names \<subseteq> set (map fst (arms s)) \<Longrightarrow>
   \<exists>i' s'. gather_loop w names intelligence s = Inr (i', s')"
proof (induction names arbitrary: intelligence s)
  case Nil
  then show ?case by simp
next
  case (Cons n names)
  from Cons.prems have n_in: "n \<in> set (map fst (arms s))"
    and rest: "set names \<subseteq> set (map fst (arms s))"
    by auto
  from n_in obtain a where a: "map_of (arms s) n = Some a"
    by (metis map_of_eq_None_iff not_Some_eq set_map)
  show ?case
  proof (cases "status a = ''ready''")
    case False
    with a Cons.IH[OF rest] show ?thesis by simp
  next
    case True
    from a obtain res s1 where p: "process_arm w n s = Inr (res, s1)"
      using process_arm_returns[of s n w] by auto
    then have "map fst (arms s1) = map fst (arms s)" by (rule process_arm_keys)
    with rest have "set names \<subseteq> set (map fst (arms s1))" by simp
    from Cons.IH[OF this] a True p show ?thesis by auto
  qed
qed

lemma gather_intelligence_returns: "\<exists>g s'. gather_intelligence w s = Inr (g, s')"
proof (cases "frozen s")
  case True
  then show ?thesis by (simp add: gather_intelligence_def)
next
  case False
  obtain i' s' where "gather_loop w (map fst (arms s)) [] s = Inr (i', s')"
    using gather_loop_returns[of "map fst (arms s)" s w "[]"] by auto
  with False show ?thesis by (simp add: gather_intelligence_def)
qed

lemma run_loop_frozen: "frozen s \<Longrightarrow> run_loop w i s = Inr s"
  by (simp add: run_loop.simps)

text \<open>The loop of \<^verbatim>\<open>run\<close> ends, and without an exception, from every state.\<close>

lemma run_loop_returns: "\<exists>s'. run_loop w i s = Inr s'"
proof (induction w i s rule: run_loop.induct)
  case (1 w iteration s)
  show ?case
  proof (cases "\<not> frozen s \<and> iteration < 100")
    case False
    then show ?thesis by (subst run_loop.simps) auto
  next
    case True
    obtain t s1 where t: "datetime_now w s = (t, s1)" by (cases "datetime_now w s")
    obtain al s2 where d: "drift_check w s1 = (al, s2)" by (cases "drift_check w s1")
    show ?thesis
    proof (cases al)
      case False
      with True t d show ?thesis by (subst run_loop.simps) simp
    next
      case al: True
      obtain g s3 where g: "gather_intelligence w s2 = Inr (g, s3)"
        using gather_intelligence_returns by blast
      show ?thesis
      proof (cases "g = Status ''frozen''")
        case True
        with \<open>\<not> frozen s \<and> iteration < 100\<close> t d al g show ?thesis
          by (subst run_loop.simps) simp
      next
        case False
        from "1.IH"[OF True t[symmetric] refl d[symmetric] refl _ g refl False] al
        obtain s' where "run_loop w (Suc iteration) s3 = Inr s'" by auto
        with \<open>\<not> frozen s \<and> iteration < 100\<close> t d al g False show ?thesis
          by (subst run_loop.simps) simp
      qed
    qed
  qed
qed

subsection \<open>A flag set in the middle of an operation\<close>

lemma gather_loop_append:
  "gather_loop w (pre @ post) intelligence s =
     (case gather_loop w pre intelligence s of
        Inl e \<Rightarrow> Inl e
      | Inr (i1, s1) \<Rightarrow> gather_loop w post i1 s1)"
  by (induction pre arbitrary: intelligence s) (auto split: option.splits sum.splits)

lemma gather_intelligence_frozen_after_prefix:
  assumes "gather_intelligence w s = Inr (g, s')"
    and "map fst (arms s) = pre @ post"
    and "gather_loop w pre [] s = Inr (i1, s1)"
    and "frozen s1"
  shows "frozen s'"
proof (cases "frozen s")
  case True
  with assms(1) show ?thesis by (simp add: gather_intelligence_def)
next
  case False
  with assms(1) obtain i' where "gather_loop w (map fst (arms s)) [] s = Inr (i', s')"
    by (auto simp: gather_intelligence_def split: sum.splits)
  with assms(2,3) have "gather_loop w post i1 s1 = Inr (i', s')"
    by (simp add: gather_loop_append)
  from this assms(4) show ?thesis by (rule gather_loop_keeps_frozen)
qed

lemma drift_check_not_aligned: "drift_check w s = (False, s2) \<Longrightarrow> frozen s2"
  by (auto simp: drift_check_def datetime_now_def frozen_freeze Let_def split_beta
      split: if_splits)

lemma loop_head_run_loop: "loop_head w i s j x \<Longrightarrow> run_loop w i s = run_loop w j x"
proof (induction rule: loop_head.induct)
  case (head_start w i s)
  show ?case by simp
next
  case (head_next w i s j x x2 g x3)
  have "run_loop w j x = run_loop w (Suc j) x3"
    using head_next.hyps(2-6) by (subst run_loop.simps) (simp add: split_beta)
  with head_next.IH show ?case by simp
qed

lemma run_loop_frozen_at_head:
  "loop_head w i s j x \<Longrightarrow> frozen x \<Longrightarrow> run_loop w i s = Inr x"
  by (simp add: loop_head_run_loop run_loop_frozen)

lemma run_loop_iteration_frozen:
  assumes "\<not> frozen x" and "j < 100"
    and "drift_check w (snd (datetime_now w x)) = (al, x2)"
    and "frozen x2 \<or> (\<exists>g x3. gather_intelligence w x2 = Inr (g, x3) \<and> frozen x3)"
  shows "\<exists>s'. run_loop w j x = Inr s' \<and> frozen s'"
proof (cases al)
  case False
  with assms(3) have "frozen x2" by (simp add: drift_check_not_aligned)
  moreover from False assms(1-3) have "run_loop w j x = Inr x2"
    by (subst run_loop.simps) (simp add: split_beta)
  ultimately show ?thesis by simp
next
  case True
  obtain g x3 where g: "gather_intelligence w x2 = Inr (g, x3)"
    using gather_intelligence_returns by blast
  have fx3: "frozen x3"
  proof (cases "frozen x2")
    case True
    with g show ?thesis by (simp add: gather_intelligence_def)
  next
    case False
    with assms(4) g show ?thesis by auto
  qed
  have "run_loop w j x = Inr x3"
  proof (cases "g = Status ''frozen''")
    case True
    with \<open>al\<close> assms(1-3) g show ?thesis
      by (subst run_loop.simps) (simp add: split_beta)
  next
    case False
    with \<open>al\<close> assms(1-3) g have "run_loop w j x = run_loop w (Suc j) x3"
      by (subst run_loop.simps) (simp add: split_beta)
    with fx3 show ?thesis by (simp add: run_loop_frozen)
  qed
  with fx3 show ?thesis by simp
qed


lemma process_arm_last_drift:
  "process_arm w arm_name s = Inr (res, s') \<Longrightarrow> last_drift s' = last_drift s"
  by (auto simp: process_arm_eq Let_def freeze_def split: if_splits option.splits)

lemma process_arm_success_frame:
  assumes "process_arm w arm_name s = Inr (res, s')" and "res \<noteq> []"
  shows "arms s' = arms s" and "frozen s' = frozen s"
  using assms
  by (auto simp: process_arm_eq Let_def freeze_def split: if_splits option.splits)

lemma process_arm_failure_arms:
  assumes "process_arm w arm_name s = Inr ([], s')" and "map_of (arms s) arm_name = Some a"
  shows "arms s' = (if 3 \<le> errors a + 1
                    then map (\<lambda>(n, a). (n, a\<lparr>status := ''frozen''\<rparr>))
                           (bump_errors arm_name (arms s))
                    else bump_errors arm_name (arms s))"
  using assms
  by (auto simp: process_arm_eq Let_def freeze_def split: if_splits)





subsection \<open>The watch of octopus\_we333.py\<close>

text \<open>
  The three source checks and the human verification of the watch are written to return
  True, so its triple check passes on every input and changes nothing.
\<close>

lemma we333_triple_check_passes: "we333_triple_check w d s = (True, s)"
  by (simp add: we333_triple_check_def verify_primary_source_def verify_secondary_source_def
      verify_pattern_match_def await_human_verification_def)

lemma w_frozen_we_freeze: "w_frozen (we_freeze w reason s)"
  by (simp add: we_freeze_def w_datetime_now_def)

lemma we333_drift_check_keeps_frozen:
  "w_frozen s \<Longrightarrow> w_frozen (snd (we333_drift_check w s))"
  by (simp add: we333_drift_check_def w_datetime_now_def w_frozen_we_freeze Let_def split_beta)

lemma collaborative_loop_frozen:
  "w_frozen (snd (collaborative_loop w names intelligence s)) = w_frozen s"
proof (induction names arbitrary: intelligence s)
  case Nil
  show ?case by simp
next
  case (Cons n names)
  show ?case
    by (simp add: Cons.IH we333_triple_check_passes collect_from_arm_def w_datetime_now_def
        Let_def split_beta split: option.splits)
qed



lemma collaborative_gather_frozen:
  "w_frozen (snd (collaborative_gather w s)) = w_frozen s"
  by (simp add: collaborative_gather_def collaborative_loop_frozen)




subsection \<open>Evaluation at the plain world\<close>

lemmas plain_world_defs =
  init_brain_def arm_names_def plain_world_def ticking_clock_def two_digits_def digit_char_def
  verify_op_def compute_hash_def plain_digest_def plain_dumps_def str_dict_def dict_get_or_def
  mock_endpoints_def bump_errors_def freeze_def Let_def str_of_nat.simps

lemma bills_calls_numeral:
  "bills_calls (Suc 0) = (case process_arm plain_world ''bills_monitor'' (bills_calls 0) of
                      Inr (res, s') \<Rightarrow> s' | Inl e \<Rightarrow> bills_calls 0)"
  "bills_calls 2 = (case process_arm plain_world ''bills_monitor'' (bills_calls (Suc 0)) of
                      Inr (res, s') \<Rightarrow> s' | Inl e \<Rightarrow> bills_calls (Suc 0))"
  "bills_calls 3 = (case process_arm plain_world ''bills_monitor'' (bills_calls 2) of
                      Inr (res, s') \<Rightarrow> s' | Inl e \<Rightarrow> bills_calls 2)"
  "bills_calls 4 = (case process_arm plain_world ''bills_monitor'' (bills_calls 3) of
                      Inr (res, s') \<Rightarrow> s' | Inl e \<Rightarrow> bills_calls 3)"
proof -
  have n: "(2::nat) = Suc (Suc 0)" "(3::nat) = Suc 2" "(4::nat) = Suc 3"
    by simp_all
  show "bills_calls (Suc 0) = (case process_arm plain_world ''bills_monitor'' (bills_calls 0) of
                      Inr (res, s') \<Rightarrow> s' | Inl e \<Rightarrow> bills_calls 0)"
    by (rule bills_calls.simps(2))
  show "bills_calls 2 = (case process_arm plain_world ''bills_monitor'' (bills_calls (Suc 0)) of
                      Inr (res, s') \<Rightarrow> s' | Inl e \<Rightarrow> bills_calls (Suc 0))"
    by (subst n(1)) (rule bills_calls.simps(2))
  show "bills_calls 3 = (case process_arm plain_world ''bills_monitor'' (bills_calls 2) of
                      Inr (res, s') \<Rightarrow> s' | Inl e \<Rightarrow> bills_calls 2)"
    by (subst n(2)) (rule bills_calls.simps(2))
  show "bills_calls 4 = (case process_arm plain_world ''bills_monitor'' (bills_calls 3) of
                      Inr (res, s') \<Rightarrow> s' | Inl e \<Rightarrow> bills_calls 3)"
    by (subst n(3)) (rule bills_calls.simps(2))
qed

text \<open>
  The first call records the hash of the data fetched at 10:00:10 under the key
  \<open>bills_monitor_10\<close>; each later call fetches data with a later timestamp, under the same
  key.
\<close>

lemma bills_calls_0:
  "ticks (bills_calls 0) = 1"
  "sha (bills_calls 0) = Map.empty"
  "map_of (arms (bills_calls 0)) ''bills_monitor'' = Some \<lparr>status = ''ready'', errors = 0\<rparr>"
  "frozen (bills_calls 0) = False"
  by (simp_all add: init_brain_def arm_names_def)

declare bills_calls.simps [simp del]

lemmas plain_step_defs =
  process_arm_eq plain_world_def ticking_clock_def two_digits_def digit_char_def
  verify_op_def compute_hash_def plain_digest_def plain_dumps_def str_dict_def dict_get_or_def
  mock_endpoints_def map_of_bump_errors map_of_freeze frozen_freeze Let_def str_of_nat.simps

lemma bills_calls_1:
  "ticks (bills_calls (Suc 0)) = 3"
  "sha (bills_calls (Suc 0)) = [''bills_monitor_10'' \<mapsto>
     ''type=bills_monitor;source=api.parliament.uk/bills/current;timestamp=2025-06-01T10:00:10;data=Mock Parliament data from bills_monitor;'']"
  "map_of (arms (bills_calls (Suc 0))) ''bills_monitor'' = Some \<lparr>status = ''ready'', errors = 0\<rparr>"
  "frozen (bills_calls (Suc 0)) = False"
  by (simp_all add: bills_calls_numeral(1) bills_calls_0 plain_step_defs)

lemma bills_calls_2:
  "ticks (bills_calls 2) = 5"
  "sha (bills_calls 2) = sha (bills_calls (Suc 0))"
  "map_of (arms (bills_calls 2)) ''bills_monitor'' = Some \<lparr>status = ''ready'', errors = 1\<rparr>"
  "frozen (bills_calls 2) = False"
  "process_arm plain_world ''bills_monitor'' (bills_calls (Suc 0)) = Inr ([], bills_calls 2)"
  by (simp_all add: bills_calls_numeral(2) bills_calls_1 plain_step_defs)

lemma bills_calls_3:
  "ticks (bills_calls 3) = 7"
  "sha (bills_calls 3) = sha (bills_calls (Suc 0))"
  "map_of (arms (bills_calls 3)) ''bills_monitor'' = Some \<lparr>status = ''ready'', errors = 2\<rparr>"
  "frozen (bills_calls 3) = False"
  "process_arm plain_world ''bills_monitor'' (bills_calls 2) = Inr ([], bills_calls 3)"
  by (simp_all add: bills_calls_numeral(3) bills_calls_2 bills_calls_1(2) plain_step_defs)

lemma bills_calls_4:
  "map_of (arms (bills_calls 4)) ''bills_monitor'' = Some \<lparr>status = ''frozen'', errors = 3\<rparr>"
  "frozen (bills_calls 4) = True"
  "process_arm plain_world ''bills_monitor'' (bills_calls 3) = Inr ([], bills_calls 4)"
  by (simp_all add: bills_calls_numeral(4) bills_calls_3 bills_calls_1(2) plain_step_defs)


text \<open>The arms after the second failure of bills\_monitor, and after its third.\<close>

lemma bills_calls_3_state:
  "arms (bills_calls 3)
     = [(''bills_monitor'', \<lparr>status = ''ready'', errors = 2\<rparr>),
        (''votes_tracker'', \<lparr>status = ''ready'', errors = 0\<rparr>),
        (''debates_analyzer'', \<lparr>status = ''ready'', errors = 0\<rparr>),
        (''committees_watcher'', \<lparr>status = ''ready'', errors = 0\<rparr>),
        (''questions_tracker'', \<lparr>status = ''ready'', errors = 0\<rparr>),
        (''lords_monitor'', \<lparr>status = ''ready'', errors = 0\<rparr>),
        (''amendments_tracker'', \<lparr>status = ''ready'', errors = 0\<rparr>),
        (''future_calendar'', \<lparr>status = ''ready'', errors = 0\<rparr>)]"
  "last_drift (bills_calls 3) = ticking_clock 0"
proof -
  have a0: "arms (bills_calls 0) = map (\<lambda>n. (n, \<lparr>status = ''ready'', errors = 0\<rparr>)) arm_names"
    and d0: "last_drift (bills_calls 0) = ticking_clock 0"
    by (simp_all add: bills_calls.simps init_brain_def plain_world_def)
  have p1: "\<exists>res. process_arm plain_world ''bills_monitor'' (bills_calls 0)
              = Inr (res, bills_calls (Suc 0)) \<and> res \<noteq> []"
    by (simp add: bills_calls_numeral(1) bills_calls_0 plain_step_defs)
  then obtain res where p1': "process_arm plain_world ''bills_monitor'' (bills_calls 0)
      = Inr (res, bills_calls (Suc 0))" and r: "res \<noteq> []"
    by blast
  have a1: "arms (bills_calls (Suc 0)) = arms (bills_calls 0)"
    using process_arm_success_frame(1)[OF p1' r] .
  have a2: "arms (bills_calls 2) = bump_errors ''bills_monitor'' (arms (bills_calls (Suc 0)))"
    using process_arm_failure_arms[OF bills_calls_2(5) bills_calls_1(3)] by simp
  have a3: "arms (bills_calls 3) = bump_errors ''bills_monitor'' (arms (bills_calls 2))"
    using process_arm_failure_arms[OF bills_calls_3(5) bills_calls_2(3)] by simp
  have "last_drift (bills_calls 3) = last_drift (bills_calls 0)"
    using process_arm_last_drift[OF p1'] process_arm_last_drift[OF bills_calls_2(5)]
      process_arm_last_drift[OF bills_calls_3(5)]
    by simp
  with d0 show "last_drift (bills_calls 3) = ticking_clock 0" by simp
  show "arms (bills_calls 3)
     = [(''bills_monitor'', \<lparr>status = ''ready'', errors = 2\<rparr>),
        (''votes_tracker'', \<lparr>status = ''ready'', errors = 0\<rparr>),
        (''debates_analyzer'', \<lparr>status = ''ready'', errors = 0\<rparr>),
        (''committees_watcher'', \<lparr>status = ''ready'', errors = 0\<rparr>),
        (''questions_tracker'', \<lparr>status = ''ready'', errors = 0\<rparr>),
        (''lords_monitor'', \<lparr>status = ''ready'', errors = 0\<rparr>),
        (''amendments_tracker'', \<lparr>status = ''ready'', errors = 0\<rparr>),
        (''future_calendar'', \<lparr>status = ''ready'', errors = 0\<rparr>)]"
    by (simp add: a3 a2 a1 a0 arm_names_def bump_errors_def)
qed

text \<open>
  Once an arm has frozen the engine, the round passes over the arms after it: a round in
  which the first arm fails for the third time returns with the state that
  \<^verbatim>\<open>process_arm\<close> left.
\<close>

lemma gather_loop_all_frozen:
  assumes "\<forall>p \<in> set (arms s). status (snd p) = ''frozen''"
    and "set names \<subseteq> set (map fst (arms s))"
  shows "gather_loop w names intelligence s = Inr (intelligence, s)"
  using assms(2)
proof (induction names)
  case Nil
  show ?case by simp
next
  case (Cons n names)
  then obtain a where a: "map_of (arms s) n = Some a"
    by (metis list.set_intros(1) map_of_eq_None_iff not_Some_eq set_map subsetD)
  then have "(n, a) \<in> set (arms s)" by (rule map_of_SomeD)
  with assms(1) have "status a = ''frozen''" by force
  with a Cons show ?case by simp
qed

lemma gather_third_failure:
  assumes "\<not> frozen s" and "map fst (arms s) = n # names"
    and "map_of (arms s) n = Some a" and "status a = ''ready''" and "3 \<le> errors a + 1"
    and "process_arm w n s = Inr ([], s')"
  shows "gather_intelligence w s = Inr (Intelligence [], s')"
proof -
  from process_arm_failure_arms[OF assms(6,3)] assms(5)
  have "arms s' = map (\<lambda>(n, a). (n, a\<lparr>status := ''frozen''\<rparr>)) (bump_errors n (arms s))"
    by simp
  then have all: "\<forall>p \<in> set (arms s'). status (snd p) = ''frozen''"
    by auto
  have "map fst (arms s') = n # names"
    using process_arm_keys[OF assms(6)] assms(2) by simp
  then have "set names \<subseteq> set (map fst (arms s'))" by auto
  with all have "gather_loop w names [] s' = Inr ([], s')"
    by (rule gather_loop_all_frozen)
  with assms(1-4,6) show ?thesis
    by (simp add: gather_intelligence_def)
qed

lemma gather_after_two_failures:
  "gather_loop plain_world [''bills_monitor''] [] (bills_calls 3) = Inr ([], bills_calls 4)"
  "gather_intelligence plain_world (bills_calls 3) = Inr (Intelligence [], bills_calls 4)"
proof -
  show "gather_loop plain_world [''bills_monitor''] [] (bills_calls 3) = Inr ([], bills_calls 4)"
    by (simp add: bills_calls_3 bills_calls_4)
  show "gather_intelligence plain_world (bills_calls 3) = Inr (Intelligence [], bills_calls 4)"
    by (rule gather_third_failure[OF _ _ bills_calls_3(3) _ _ bills_calls_4(3)])
       (simp_all add: bills_calls_3 bills_calls_3_state)
qed

lemma bills_calls_4_state:
  "arms (bills_calls 4)
     = [(''bills_monitor'', \<lparr>status = ''frozen'', errors = 3\<rparr>),
        (''votes_tracker'', \<lparr>status = ''frozen'', errors = 0\<rparr>),
        (''debates_analyzer'', \<lparr>status = ''frozen'', errors = 0\<rparr>),
        (''committees_watcher'', \<lparr>status = ''frozen'', errors = 0\<rparr>),
        (''questions_tracker'', \<lparr>status = ''frozen'', errors = 0\<rparr>),
        (''lords_monitor'', \<lparr>status = ''frozen'', errors = 0\<rparr>),
        (''amendments_tracker'', \<lparr>status = ''frozen'', errors = 0\<rparr>),
        (''future_calendar'', \<lparr>status = ''frozen'', errors = 0\<rparr>)]"
  using process_arm_failure_arms[OF bills_calls_4(3) bills_calls_3(3)]
  by (simp add: bills_calls_3_state bump_errors_def)

text \<open>
  The run from the initial state. The arms stay the eight of the constructor, so the drift
  check is always passed; while the brain is not frozen, each pass through the body of the
  loop brings it to the test of the loop again.
\<close>

lemma gather_loop_keys:
  "gather_loop w names intelligence s = Inr (i', s') \<Longrightarrow> map fst (arms s') = map fst (arms s)"
proof (induction names arbitrary: intelligence s)
  case Nil
  then show ?case by simp
next
  case (Cons n names)
  then show ?case
    by (auto split: option.splits if_splits sum.splits dest: process_arm_keys)
qed

lemma gather_intelligence_keys:
  "gather_intelligence w s = Inr (g, s') \<Longrightarrow> map fst (arms s') = map fst (arms s)"
  by (auto simp: gather_intelligence_def split: if_splits sum.splits dest: gather_loop_keys)

lemma drift_check_keys: "map fst (arms (snd (drift_check w s))) = map fst (arms s)"
  by (simp add: drift_check_def datetime_now_def map_fst_freeze Let_def split_beta)

lemma drift_check_aligned:
  "length (arms s) = 8 \<Longrightarrow> drift_check w s = (True, snd (drift_check w s))"
  by (simp add: drift_check_def datetime_now_def check_parliament_focus_def Let_def split_beta)

lemma run_rounds_keys: "map fst (arms (run_rounds k)) = arm_names"
proof (induction k)
  case 0
  show ?case by (simp add: init_brain_def comp_def)
next
  case (Suc k)
  let ?x2 = "snd (drift_check plain_world (snd (datetime_now plain_world (run_rounds k))))"
  obtain g s' where g: "gather_intelligence plain_world ?x2 = Inr (g, s')"
    using gather_intelligence_returns by blast
  then have "map fst (arms s') = map fst (arms ?x2)"
    by (rule gather_intelligence_keys)
  with g Suc show ?case
    by (simp add: drift_check_keys datetime_now_def)
qed

lemma run_rounds_stays_frozen: "frozen (run_rounds k) \<Longrightarrow> frozen (run_rounds (Suc k))"
  by (simp add: gather_intelligence_def drift_check_frozen_iff datetime_now_def)

lemma run_rounds_next_head:
  assumes "loop_head plain_world 0 (init_brain plain_world) k (run_rounds k)"
    and "\<not> frozen (run_rounds k)" and "k < 100"
  shows "loop_head plain_world 0 (init_brain plain_world) (Suc k) (run_rounds (Suc k))"
proof -
  let ?x1 = "snd (datetime_now plain_world (run_rounds k))"
  let ?x2 = "snd (drift_check plain_world ?x1)"
  have "length (map fst (arms ?x1)) = 8"
    by (simp add: datetime_now_def run_rounds_keys arm_names_def del: length_map)
  then have l: "length (arms ?x1) = 8" by simp
  then have d: "drift_check plain_world ?x1 = (True, ?x2)"
    by (rule drift_check_aligned)
  from l assms(2) have n: "\<not> frozen ?x2"
    by (simp add: drift_check_frozen_iff datetime_now_def)
  obtain g s' where g: "gather_intelligence plain_world ?x2 = Inr (g, s')"
    using gather_intelligence_returns by blast
  with n have "g \<noteq> Status ''frozen''"
    by (auto simp: gather_intelligence_def split: sum.splits)
  moreover from g have "run_rounds (Suc k) = s'" by simp
  ultimately show ?thesis
    using head_next[OF assms(1,2,3) d] g by simp
qed

lemma run_rounds_head:
  "\<not> frozen (run_rounds k) \<Longrightarrow> k < 100 \<Longrightarrow>
   loop_head plain_world 0 (init_brain plain_world) (Suc k) (run_rounds (Suc k))"
proof (induction k)
  case 0
  have "loop_head plain_world 0 (init_brain plain_world) 0 (run_rounds 0)"
    by (simp add: head_start)
  from this 0 show ?case by (rule run_rounds_next_head)
next
  case (Suc k)
  from Suc.prems(1) have "\<not> frozen (run_rounds k)"
    using run_rounds_stays_frozen by blast
  with Suc have "loop_head plain_world 0 (init_brain plain_world) (Suc k) (run_rounds (Suc k))"
    by simp
  from this Suc.prems show ?case by (rule run_rounds_next_head)
qed

text \<open>
  In the plain world the brain is not frozen after three passes and frozen after the
  fourth.
\<close>

lemma run_rounds_numeral:
  "run_rounds 3 = run_rounds (Suc (Suc (Suc 0)))"
  "run_rounds 4 = run_rounds (Suc (Suc (Suc (Suc 0))))"
  by (simp_all add: eval_nat_numeral)

lemma run_rounds_3: "\<not> frozen (run_rounds 3)"
  unfolding run_rounds_numeral
  by (simp add: drift_check_def datetime_now_def thirty_minutes_def
      gather_intelligence_def process_arm_eq plain_world_defs)

lemma run_rounds_4: "frozen (run_rounds 4)"
  unfolding run_rounds_numeral
  by (simp add: drift_check_def datetime_now_def thirty_minutes_def
      gather_intelligence_def process_arm_eq plain_world_defs)

lemma run_rounds_heads:
  "loop_head plain_world 0 (init_brain plain_world) 3 (run_rounds 3)"
  "loop_head plain_world 0 (init_brain plain_world) 4 (run_rounds 4)"
proof -
  have "\<not> frozen (run_rounds (Suc (Suc 0)))"
    using run_rounds_3 run_rounds_stays_frozen[of "Suc (Suc 0)"]
    by (auto simp: run_rounds_numeral)
  then have "loop_head plain_world 0 (init_brain plain_world) (Suc (Suc (Suc 0)))
      (run_rounds (Suc (Suc (Suc 0))))"
    by (rule run_rounds_head) simp
  then show "loop_head plain_world 0 (init_brain plain_world) 3 (run_rounds 3)"
    by (simp add: eval_nat_numeral)
  have "loop_head plain_world 0 (init_brain plain_world) (Suc 3) (run_rounds (Suc 3))"
    using run_rounds_3 by (rule run_rounds_head) simp
  then show "loop_head plain_world 0 (init_brain plain_world) 4 (run_rounds 4)"
    by (simp add: eval_nat_numeral)
qed

lemma run_rounds_fourth:
  "drift_check plain_world (snd (datetime_now plain_world (run_rounds 3)))
     = (True, snd (drift_check plain_world (snd (datetime_now plain_world (run_rounds 3)))))"
  "\<exists>g. gather_intelligence plain_world
         (snd (drift_check plain_world (snd (datetime_now plain_world (run_rounds 3)))))
       = Inr (g, run_rounds 4)"
proof -
  let ?x1 = "snd (datetime_now plain_world (run_rounds 3))"
  let ?x2 = "snd (drift_check plain_world ?x1)"
  have "length (map fst (arms ?x1)) = 8"
    by (simp add: datetime_now_def run_rounds_keys arm_names_def del: length_map)
  then have "length (arms ?x1) = 8" by simp
  then show "drift_check plain_world ?x1 = (True, ?x2)"
    by (rule drift_check_aligned)
  obtain g s' where g: "gather_intelligence plain_world ?x2 = Inr (g, s')"
    using gather_intelligence_returns by blast
  have e: "(4::nat) = Suc 3" by simp
  have "run_rounds 4 = (case gather_intelligence plain_world ?x2 of
                          Inr (g, s') \<Rightarrow> s' | Inl e \<Rightarrow> run_rounds 3)"
    by (subst e) (rule run_rounds.simps(2))
  with g have "run_rounds 4 = s'" by simp
  with g show "\<exists>g. gather_intelligence plain_world ?x2 = Inr (g, run_rounds 4)"
    by simp
qed

section \<open>The claims on the engine\<close>

text \<open>
  C4. While the engine is frozen the gather operation returns the status dict and nothing
  else, and the state after the call is the state before it: no arm's status, error counter
  or last data is touched (nor is anything else). This holds for \<^verbatim>\<open>gather_intelligence\<close>
  of the brain and for \<^verbatim>\<open>collaborative_gather\<close> of the watch.
\<close>

theorem frozen_gather_fails_fast:
  "(frozen s \<longrightarrow> gather_intelligence w s = Inr (Status ''frozen'', s))
   \<and> (w_frozen t \<longrightarrow>
        collaborative_gather w t = (We_status ''WE are reviewing together'', t))"
  by (simp add: gather_intelligence_def collaborative_gather_def)

theorem frozen_gather_fails_fast_witness:
  "frozen (freeze ''halt'' (init_brain plain_world))
   \<and> gather_intelligence plain_world (freeze ''halt'' (init_brain plain_world))
       = Inr (Status ''frozen'', freeze ''halt'' (init_brain plain_world))
   \<and> w_frozen (we_freeze plain_world ''halt'' (init_watch plain_world))
   \<and> collaborative_gather plain_world (we_freeze plain_world ''halt'' (init_watch plain_world))
       = (We_status ''WE are reviewing together'',
          we_freeze plain_world ''halt'' (init_watch plain_world))"
  using frozen_gather_fails_fast
          [of "freeze ''halt'' (init_brain plain_world)" plain_world
              "we_freeze plain_world ''halt'' (init_watch plain_world)"]
  by (simp add: frozen_freeze w_frozen_we_freeze)

text \<open>
  C5. No operation clears the flag. From a frozen state, \<^verbatim>\<open>freeze\<close>, \<^verbatim>\<open>drift_check\<close>,
  \<^verbatim>\<open>triple_verify\<close>, \<^verbatim>\<open>process_arm\<close> (when it returns), \<^verbatim>\<open>gather_intelligence\<close>, the loop
  of \<^verbatim>\<open>run\<close> from any iteration and \<^verbatim>\<open>run\<close> itself all end in a frozen state, and the last
  three do return. A flag set in the middle of an operation stays set as well: the loop
  over the arms, from any arm on and in any state, ends frozen when it starts frozen, so a
  round of \<^verbatim>\<open>gather_intelligence\<close> that is frozen after any first part of its arms is
  frozen at its end; and the loop of \<^verbatim>\<open>run\<close> (which \<^verbatim>\<open>run\<close> enters at iteration 0), whenever
  it comes to its test in a frozen state, returns that state, and whenever the drift check
  or the round freezes within an iteration, returns a frozen state. The same holds of \<^verbatim>\<open>we_freeze\<close>, \<^verbatim>\<open>we333_drift_check\<close>,
  \<^verbatim>\<open>we333_triple_check\<close> and \<^verbatim>\<open>collaborative_gather\<close> of the watch, whose loop over the arms
  leaves the flag as it finds it. (Neither class has an operation that unfreezes.)
\<close>

theorem frozen_never_cleared:
  "(frozen s \<longrightarrow>
      frozen (freeze reason s)
      \<and> frozen (snd (drift_check w s))
      \<and> frozen (snd (triple_verify w d s))
      \<and> (case process_arm w arm_name s of Inl e \<Rightarrow> True | Inr (res, s') \<Rightarrow> frozen s')
      \<and> (case gather_intelligence w s of Inl e \<Rightarrow> False | Inr (g, s') \<Rightarrow> frozen s')
      \<and> (case run_loop w i s of Inl e \<Rightarrow> False | Inr s' \<Rightarrow> frozen s')
      \<and> (case run w s of Inl e \<Rightarrow> False | Inr s' \<Rightarrow> frozen s'))
   \<and> (w_frozen t \<longrightarrow>
      w_frozen (we_freeze w reason t)
      \<and> w_frozen (snd (we333_drift_check w t))
      \<and> w_frozen (snd (we333_triple_check w m t))
      \<and> w_frozen (snd (collaborative_gather w t)))
   \<and> (gather_loop w names intelligence s = Inr (intelligence1, s1) \<and> frozen s \<longrightarrow> frozen s1)
   \<and> (gather_intelligence w s = Inr (g, s2) \<and> map fst (arms s) = pre @ post
        \<and> gather_loop w pre [] s = Inr (intelligence1, s1) \<and> frozen s1 \<longrightarrow> frozen s2)
   \<and> (loop_head w i s j x \<and> frozen x \<longrightarrow> run_loop w i s = Inr x)
   \<and> (loop_head w i s j x \<and> \<not> frozen x \<and> j < 100
        \<and> drift_check w (snd (datetime_now w x)) = (aligned, x2)
        \<and> (frozen x2 \<or> (\<exists>g3 x3. gather_intelligence w x2 = Inr (g3, x3) \<and> frozen x3))
      \<longrightarrow> (\<exists>s3. run_loop w i s = Inr s3 \<and> frozen s3))
   \<and> run w s = run_loop w 0 s
   \<and> w_frozen (snd (collaborative_loop w names our_intelligence t)) = w_frozen t"
proof (intro conjI impI)
  assume f: "frozen s"
  show "frozen (freeze reason s)" by (rule frozen_freeze)
  from f show "frozen (snd (drift_check w s))" by (simp add: drift_check_frozen_iff)
  from f show "frozen (snd (triple_verify w d s))" by (simp add: triple_verify_frozen)
  from f show "case process_arm w arm_name s of Inl e \<Rightarrow> True | Inr (res, s') \<Rightarrow> frozen s'"
    by (auto split: sum.splits dest: process_arm_keeps_frozen)
  from f show "case gather_intelligence w s of Inl e \<Rightarrow> False | Inr (g, s') \<Rightarrow> frozen s'"
    by (simp add: gather_intelligence_def)
  from f show "case run_loop w i s of Inl e \<Rightarrow> False | Inr s' \<Rightarrow> frozen s'"
    by (simp add: run_loop_frozen)
  from f show "case run w s of Inl e \<Rightarrow> False | Inr s' \<Rightarrow> frozen s'"
    by (simp add: run_def run_loop_frozen)
next
  assume f: "w_frozen t"
  show "w_frozen (we_freeze w reason t)" by (rule w_frozen_we_freeze)
  from f show "w_frozen (snd (we333_drift_check w t))" by (rule we333_drift_check_keeps_frozen)
  from f show "w_frozen (snd (we333_triple_check w m t))"
    by (simp add: we333_triple_check_passes)
  from f show "w_frozen (snd (collaborative_gather w t))"
    by (simp add: collaborative_gather_frozen)
next
  assume "gather_loop w names intelligence s = Inr (intelligence1, s1) \<and> frozen s"
  then show "frozen s1" by (auto dest: gather_loop_keeps_frozen)
next
  assume "gather_intelligence w s = Inr (g, s2) \<and> map fst (arms s) = pre @ post
        \<and> gather_loop w pre [] s = Inr (intelligence1, s1) \<and> frozen s1"
  then show "frozen s2" by (auto dest: gather_intelligence_frozen_after_prefix)
next
  assume "loop_head w i s j x \<and> frozen x"
  then have "loop_head w i s j x" and "frozen x" by simp_all
  then show "run_loop w i s = Inr x" by (rule run_loop_frozen_at_head)
next
  assume a: "loop_head w i s j x \<and> \<not> frozen x \<and> j < 100
        \<and> drift_check w (snd (datetime_now w x)) = (aligned, x2)
        \<and> (frozen x2 \<or> (\<exists>g3 x3. gather_intelligence w x2 = Inr (g3, x3) \<and> frozen x3))"
  then have "\<exists>s3. run_loop w j x = Inr s3 \<and> frozen s3"
    by (intro run_loop_iteration_frozen[of x j w aligned x2]) auto
  moreover from a have "run_loop w i s = run_loop w j x"
    by (intro loop_head_run_loop) simp
  ultimately show "\<exists>s3. run_loop w i s = Inr s3 \<and> frozen s3"
    by simp
next
  show "run w s = run_loop w 0 s"
    by (rule run_def)
  show "w_frozen (snd (collaborative_loop w names our_intelligence t)) = w_frozen t"
    by (rule collaborative_loop_frozen)
qed

theorem frozen_never_cleared_witness:
  "frozen (freeze ''halt'' (init_brain plain_world))
   \<and> frozen (snd (drift_check plain_world (freeze ''halt'' (init_brain plain_world))))
   \<and> frozen (snd (triple_verify plain_world [] (freeze ''halt'' (init_brain plain_world))))
   \<and> (case process_arm plain_world ''bills_monitor'' (freeze ''halt'' (init_brain plain_world)) of
         Inl e \<Rightarrow> True | Inr (res, s') \<Rightarrow> frozen s')
   \<and> (case gather_intelligence plain_world (freeze ''halt'' (init_brain plain_world)) of
         Inl e \<Rightarrow> False | Inr (g, s') \<Rightarrow> frozen s')
   \<and> (case run plain_world (freeze ''halt'' (init_brain plain_world)) of
         Inl e \<Rightarrow> False | Inr s' \<Rightarrow> frozen s')
   \<and> w_frozen (we_freeze plain_world ''halt'' (init_watch plain_world))
   \<and> w_frozen (snd (we333_drift_check plain_world
         (we_freeze plain_world ''halt'' (init_watch plain_world))))
   \<and> w_frozen (snd (collaborative_gather plain_world
         (we_freeze plain_world ''halt'' (init_watch plain_world))))
   \<and> w_frozen (snd (collaborative_loop plain_world our_arms []
         (we_freeze plain_world ''halt'' (init_watch plain_world))))
   \<and> \<not> frozen (bills_calls 3)
   \<and> map fst (arms (bills_calls 3))
       = [''bills_monitor''] @ [''votes_tracker'', ''debates_analyzer'', ''committees_watcher'',
           ''questions_tracker'', ''lords_monitor'', ''amendments_tracker'', ''future_calendar'']
   \<and> gather_loop plain_world [''bills_monitor''] [] (bills_calls 3) = Inr ([], bills_calls 4)
   \<and> frozen (bills_calls 4)
   \<and> gather_loop plain_world
         [''votes_tracker'', ''debates_analyzer'', ''committees_watcher'',
          ''questions_tracker'', ''lords_monitor'', ''amendments_tracker'', ''future_calendar'']
         [] (bills_calls 4) = Inr ([], bills_calls 4)
   \<and> gather_intelligence plain_world (bills_calls 3) = Inr (Intelligence [], bills_calls 4)
   \<and> \<not> frozen (init_brain plain_world)
   \<and> loop_head plain_world 0 (init_brain plain_world) 3 (run_rounds 3)
   \<and> \<not> frozen (run_rounds 3)
   \<and> drift_check plain_world (snd (datetime_now plain_world (run_rounds 3)))
       = (True, snd (drift_check plain_world (snd (datetime_now plain_world (run_rounds 3)))))
   \<and> (\<exists>g3. gather_intelligence plain_world
               (snd (drift_check plain_world (snd (datetime_now plain_world (run_rounds 3)))))
             = Inr (g3, run_rounds 4))
   \<and> frozen (run_rounds 4)
   \<and> (\<exists>s3. run_loop plain_world 0 (init_brain plain_world) = Inr s3 \<and> frozen s3)
   \<and> loop_head plain_world 0 (init_brain plain_world) 4 (run_rounds 4)
   \<and> run_loop plain_world 0 (init_brain plain_world) = Inr (run_rounds 4)
   \<and> run plain_world (init_brain plain_world) = Inr (run_rounds 4)"
proof -
  let ?rest = "[''votes_tracker'', ''debates_analyzer'', ''committees_watcher'',
          ''questions_tracker'', ''lords_monitor'', ''amendments_tracker'', ''future_calendar'']"
  let ?x2 = "snd (drift_check plain_world (snd (datetime_now plain_world (run_rounds 3))))"
  have b: "frozen (freeze ''halt'' (init_brain plain_world))"
    by (simp add: freeze_def)
  have t: "w_frozen (we_freeze plain_world ''halt'' (init_watch plain_world))"
    by (simp add: we_freeze_def w_datetime_now_def)
  note at_frozen = frozen_never_cleared
      [where s = "freeze ''halt'' (init_brain plain_world)" and reason = "''halt''"
         and w = plain_world and d = "[]" and arm_name = "''bills_monitor''" and i = 0
         and t = "we_freeze plain_world ''halt'' (init_watch plain_world)"
         and names = our_arms and our_intelligence = "[]"]
  from b t at_frozen
  have started_frozen:
    "frozen (snd (drift_check plain_world (freeze ''halt'' (init_brain plain_world))))
     \<and> frozen (snd (triple_verify plain_world [] (freeze ''halt'' (init_brain plain_world))))
     \<and> (case process_arm plain_world ''bills_monitor'' (freeze ''halt'' (init_brain plain_world)) of
         Inl e \<Rightarrow> True | Inr (res, s') \<Rightarrow> frozen s')
     \<and> (case gather_intelligence plain_world (freeze ''halt'' (init_brain plain_world)) of
         Inl e \<Rightarrow> False | Inr (g, s') \<Rightarrow> frozen s')
     \<and> (case run plain_world (freeze ''halt'' (init_brain plain_world)) of
         Inl e \<Rightarrow> False | Inr s' \<Rightarrow> frozen s')
     \<and> w_frozen (snd (we333_drift_check plain_world
         (we_freeze plain_world ''halt'' (init_watch plain_world))))
     \<and> w_frozen (snd (collaborative_gather plain_world
         (we_freeze plain_world ''halt'' (init_watch plain_world))))
     \<and> w_frozen (snd (collaborative_loop plain_world our_arms []
         (we_freeze plain_world ''halt'' (init_watch plain_world))))"
    by blast
  have n3: "\<not> frozen (bills_calls 3)" and f4: "frozen (bills_calls 4)"
    by (simp_all add: bills_calls_3 bills_calls_4)
  have keys: "map fst (arms (bills_calls 3)) = [''bills_monitor''] @ ?rest"
    by (simp add: bills_calls_3_state)
  have rest: "gather_loop plain_world ?rest [] (bills_calls 4) = Inr ([], bills_calls 4)"
    by (simp add: bills_calls_4_state)
  note in_round = frozen_never_cleared
      [where s = "bills_calls 3" and w = plain_world and g = "Intelligence []"
         and ?s2.0 = "bills_calls 4" and pre = "[''bills_monitor'']" and post = ?rest
         and ?intelligence1.0 = "[]" and ?s1.0 = "bills_calls 4"]
  from in_round keys gather_after_two_failures f4
  have "frozen (bills_calls 4)" by blast
  note after_freeze = frozen_never_cleared
      [where s = "bills_calls 4" and w = plain_world and names = ?rest and intelligence = "[]"
         and ?intelligence1.0 = "[]" and ?s1.0 = "bills_calls 4"]
  from after_freeze rest f4 have "frozen (bills_calls 4)" by blast
  have n0: "\<not> frozen (init_brain plain_world)"
    by (simp add: init_brain_def)
  note at_head = frozen_never_cleared
      [where s = "init_brain plain_world" and w = plain_world and i = 0 and j = 3
         and x = "run_rounds 3" and aligned = True and ?x2.0 = ?x2]
  have "3 < (100::nat)" by simp
  with at_head run_rounds_heads(1) run_rounds_3 run_rounds_fourth run_rounds_4
  have r3: "\<exists>s3. run_loop plain_world 0 (init_brain plain_world) = Inr s3 \<and> frozen s3"
    by blast
  note at_exit = frozen_never_cleared
      [where s = "init_brain plain_world" and w = plain_world and i = 0 and j = 4
         and x = "run_rounds 4"]
  from at_exit run_rounds_heads(2) run_rounds_4
  have r4: "run_loop plain_world 0 (init_brain plain_world) = Inr (run_rounds 4)"
    by blast
  moreover from at_exit have "run plain_world (init_brain plain_world)
      = run_loop plain_world 0 (init_brain plain_world)"
    by blast
  ultimately have r: "run plain_world (init_brain plain_world) = Inr (run_rounds 4)"
    by simp
  show ?thesis
    using b t started_frozen n3 f4 keys rest gather_after_two_failures n0
      run_rounds_heads run_rounds_3 run_rounds_4 run_rounds_fourth r3 r4 r
    by (intro conjI) blast+
qed

text \<open>
  C3, as the claim states it, fails. Run from its initial state with a clock that stays
  within one hour, the brain gathers once without a failure; from the second round on each
  arm's data differs from the data recorded under the same key (the timestamp has moved),
  so every arm fails once per round; in the fourth round the first arm, bills\_monitor,
  reaches three errors and \<^verbatim>\<open>process_arm\<close> freezes the engine. No drift check has fired:
  the readings of the clock span less than ten minutes. The same four calls of
  \<^verbatim>\<open>process_arm\<close> for that arm alone, with no drift check at all, freeze the engine too.
\<close>

theorem one_arm_freezes_engine:
  "\<not> frozen (init_brain plain_world)
   \<and> (case run plain_world (init_brain plain_world) of
        Inl e \<Rightarrow> False
      | Inr s \<Rightarrow>
          frozen s
          \<and> map (\<lambda>p. (fst p, errors (snd p))) (arms s)
              = [(''bills_monitor'', 3), (''votes_tracker'', 2), (''debates_analyzer'', 2),
                 (''committees_watcher'', 2), (''questions_tracker'', 2), (''lords_monitor'', 2),
                 (''amendments_tracker'', 2), (''future_calendar'', 2)]
          \<and> ticks s = 59
          \<and> micros (now plain_world 59) - micros (last_drift s) < thirty_minutes)
   \<and> (case process_arm plain_world ''bills_monitor'' (init_brain plain_world) of
        Inl e \<Rightarrow> False
      | Inr (r1, s1) \<Rightarrow> r1 \<noteq> [] \<and> \<not> frozen s1 \<and>
         (case process_arm plain_world ''bills_monitor'' s1 of
            Inl e \<Rightarrow> False
          | Inr (r2, s2) \<Rightarrow> r2 = [] \<and> \<not> frozen s2 \<and>
             (case process_arm plain_world ''bills_monitor'' s2 of
                Inl e \<Rightarrow> False
              | Inr (r3, s3) \<Rightarrow> r3 = [] \<and> \<not> frozen s3 \<and>
                 (case process_arm plain_world ''bills_monitor'' s3 of
                    Inl e \<Rightarrow> False
                  | Inr (r4, s4) \<Rightarrow> r4 = [] \<and> frozen s4))))"
proof (intro conjI)
  show "\<not> frozen (init_brain plain_world)"
    by (simp add: init_brain_def)
  show "case run plain_world (init_brain plain_world) of
        Inl e \<Rightarrow> False
      | Inr s \<Rightarrow>
          frozen s
          \<and> map (\<lambda>p. (fst p, errors (snd p))) (arms s)
              = [(''bills_monitor'', 3), (''votes_tracker'', 2), (''debates_analyzer'', 2),
                 (''committees_watcher'', 2), (''questions_tracker'', 2), (''lords_monitor'', 2),
                 (''amendments_tracker'', 2), (''future_calendar'', 2)]
          \<and> ticks s = 59
          \<and> micros (now plain_world 59) - micros (last_drift s) < thirty_minutes"
    by (simp add: run_def run_loop.simps drift_check_def datetime_now_def thirty_minutes_def
        gather_intelligence_def process_arm_eq plain_world_defs)
  show "case process_arm plain_world ''bills_monitor'' (init_brain plain_world) of
        Inl e \<Rightarrow> False
      | Inr (r1, s1) \<Rightarrow> r1 \<noteq> [] \<and> \<not> frozen s1 \<and>
         (case process_arm plain_world ''bills_monitor'' s1 of
            Inl e \<Rightarrow> False
          | Inr (r2, s2) \<Rightarrow> r2 = [] \<and> \<not> frozen s2 \<and>
             (case process_arm plain_world ''bills_monitor'' s2 of
                Inl e \<Rightarrow> False
              | Inr (r3, s3) \<Rightarrow> r3 = [] \<and> \<not> frozen s3 \<and>
                 (case process_arm plain_world ''bills_monitor'' s3 of
                    Inl e \<Rightarrow> False
                  | Inr (r4, s4) \<Rightarrow> r4 = [] \<and> frozen s4)))"
    by (simp add: process_arm_eq plain_world_defs)
qed

text \<open>
  C3, amended. The flag is set by \<^verbatim>\<open>freeze\<close>, and \<^verbatim>\<open>process_arm\<close> calls it directly: after
  a call of \<^verbatim>\<open>process_arm\<close> that returns, the engine is frozen exactly when it was frozen
  before or the call failed (returned the empty dict) with the arm's error counter reaching
  3. \<^verbatim>\<open>drift_check\<close> freezes exactly when more than thirty minutes have passed since the last
  drift check and the arms are not eight; \<^verbatim>\<open>triple_verify\<close> leaves the flag alone; and the
  watch's \<^verbatim>\<open>collaborative_gather\<close>, whose checks are written to succeed, leaves its flag as
  it was.
\<close>

theorem frozen_set_by_failing_arm:
  "(process_arm w arm_name s = Inr (res, s') \<and> map_of (arms s) arm_name = Some a \<longrightarrow>
      frozen s' = (frozen s \<or> (res = [] \<and> 3 \<le> errors a + 1)))
   \<and> frozen (snd (drift_check w s))
       = (frozen s \<or> (thirty_minutes < micros (now w (ticks s)) - micros (last_drift s)
                        \<and> length (arms s) \<noteq> 8))
   \<and> frozen (snd (triple_verify w d s)) = frozen s
   \<and> w_frozen (snd (collaborative_gather w t)) = w_frozen t"
  by (auto simp: drift_check_frozen_iff triple_verify_frozen collaborative_gather_frozen
      dest: process_arm_frozen_iff)

theorem frozen_set_by_failing_arm_witness:
  "process_arm plain_world ''bills_monitor'' (bills_calls 3) = Inr ([], bills_calls 4)
   \<and> map_of (arms (bills_calls 3)) ''bills_monitor'' = Some \<lparr>status = ''ready'', errors = 2\<rparr>
   \<and> \<not> frozen (bills_calls 3)
   \<and> frozen (bills_calls 4)"
  using frozen_set_by_failing_arm
          [of plain_world "''bills_monitor''" "bills_calls 3" "[]" "bills_calls 4"
              "\<lparr>status = ''ready'', errors = 2\<rparr>"]
  by (simp add: bills_calls_3 bills_calls_4)




section \<open>The journalism pipeline\<close>

text \<open>
  \<^verbatim>\<open>fact_check\<close> returns for every analysis: \<^verbatim>\<open>extract_facts\<close> is written to return one
  fact, so the division has a divisor of 1.
\<close>

lemma fact_check_returns: "\<exists>a. fact_check analysis = Inr a"
  by (simp add: fact_check_def extract_facts_def Let_def)

lemma approve_publication_truthy_iff:
  "(\<exists>v. approve_publication publication = Inr v \<and> truthy v)
     = (truthy (dict_get publication ''verified_facts'')
        \<and> py_gt (dict_get_or publication ''sources_cited'' (PInt 0)) 0 = Inr True)"
  by (auto simp: approve_publication_def Let_def split: sum.splits)

text \<open>What \<^verbatim>\<open>prepare_publication\<close> returns, when it returns.\<close>

lemma prepare_publication_shape:
  assumes "prepare_publication w t analysis = Inr publication"
  shows "map fst publication
           = [''headline'', ''summary'', ''verified_facts'', ''sources_cited'',
              ''bias_disclosure'', ''publication_time'', ''website_target'',
              ''sha_signature'', ''status'']"
    and "map_of publication ''sha_signature''
           = Some (PStr (compute_hash (sha256_hex w) (json_dumps w False (PDict analysis))))"
  using assms
  by (auto simp: prepare_publication_def Let_def split: option.splits sum.splits if_splits)

lemma call_arm_keeps_hashes:
  assumes "call_arm w f v p = Inr (r, p')" and "f \<noteq> Verify_sources"
  shows "p_sha p' = p_sha p"
  using assms
  by (cases f; cases v) (auto simp: call_arm_def split: sum.splits)

text \<open>
  The pipeline as \<^verbatim>\<open>run_journalism_pipeline\<close> runs it: the analysis that \<^verbatim>\<open>analyze_story\<close>
  builds has no key \<^verbatim>\<open>sources\<close>, so no hash is recorded, no source is cited and the
  publication is not approved.
\<close>

lemma run_journalism_pipeline_needs_review:
  "\<exists>pub. run_journalism_pipeline w = Inr (Some (PDict pub), \<lparr>p_sha = Map.empty, p_ticks = 2\<rparr>)
         \<and> map_of pub ''status'' = Some (PStr ''NEEDS_HUMAN_REVIEW'')
         \<and> map_of pub ''sources_cited'' = Some (PInt 0)"
  by (simp add: run_journalism_pipeline_def hunt_stories_def check_parliament_def check_bbc_def
      check_x_twitter_def importance_def dict_get_or_def dict_get_def pipeline_arms_def
      call_arm_def analyze_story_def classify_story_def assess_impact_def
      identify_stakeholders_def check_story_ethics_def fact_check_def extract_facts_def
      check_primary_source_def check_secondary_source_def check_historical_pattern_def
      verify_sources_def aggregate_apis_def call_parliament_api_def call_gov_api_def
      call_news_apis_def build_context_def get_historical_context_def
      get_stakeholder_positions_def find_related_events_def project_implications_def
      detect_bias_def prepare_publication_def generate_summary_def py_format_def
      approve_publication_def Let_def)

text \<open>
  What \<^verbatim>\<open>verify_sources\<close> records. When the loop over the sources returns, the verifier
  has been called for every source, and its dict is the one before the loop with, for each
  source id that it did not hold, the hash of the content of the first source with that
  id.
\<close>

lemma verify_sources_loop_step:
  assumes "verify_sources_loop w hs (source # rest) = Inr (sources', hs')"
  shows "\<exists>key content rest'. source_entry source = Some (key, content)
           \<and> verify_sources_loop w (snd (verify_jp (sha256_hex w) hs key content)) rest
               = Inr (rest', hs')"
  using assms
  by (auto simp: Let_def split: pyval.splits option.splits sum.splits prod.splits)

lemma verify_sources_loop_records:
  assumes "verify_sources_loop w hs sources = Inr (sources', hs')"
  shows "list_all (\<lambda>source. source_entry source \<noteq> None) sources
         \<and> hs' = (\<lambda>key. case hs key of
                         Some stored \<Rightarrow> Some stored
                       | None \<Rightarrow> map_option (compute_hash (sha256_hex w))
                                  (map_of (List.map_filter source_entry sources) key))"
  using assms
proof (induction sources arbitrary: hs sources' hs')
  case Nil
  then show ?case
    by (auto simp: map_filter_simps fun_eq_iff split: option.splits)
next
  case (Cons source rest)
  from verify_sources_loop_step[OF Cons.prems]
  obtain key content rest' where e: "source_entry source = Some (key, content)"
    and r: "verify_sources_loop w (snd (verify_jp (sha256_hex w) hs key content)) rest
              = Inr (rest', hs')"
    by blast
  from Cons.IH[OF r]
  have all: "list_all (\<lambda>source. source_entry source \<noteq> None) rest"
    and h: "hs' = (\<lambda>k. case snd (verify_jp (sha256_hex w) hs key content) k of
                         Some stored \<Rightarrow> Some stored
                       | None \<Rightarrow> map_option (compute_hash (sha256_hex w))
                                  (map_of (List.map_filter source_entry rest) k))"
    by simp_all
  from e all have "list_all (\<lambda>source. source_entry source \<noteq> None) (source # rest)"
    by simp
  moreover
  have "hs' = (\<lambda>k. case hs k of
                         Some stored \<Rightarrow> Some stored
                       | None \<Rightarrow> map_option (compute_hash (sha256_hex w))
                                  (map_of (List.map_filter source_entry (source # rest)) k))"
    by (subst h) (auto simp: e verify_jp_def Let_def map_filter_simps fun_eq_iff
        split: option.splits)
  ultimately show ?case by simp
qed

lemma verify_sources_records:
  assumes "verify_sources w hs analysis = Inr (analysis', hs')"
  shows "\<exists>sources. py_iter (dict_get_or analysis ''sources'' (PList [])) = Inr sources
           \<and> list_all (\<lambda>source. source_entry source \<noteq> None) sources
           \<and> hs' = (\<lambda>key. case hs key of
                    Some stored \<Rightarrow> Some stored
                  | None \<Rightarrow> map_option (compute_hash (sha256_hex w))
                             (map_of (List.map_filter source_entry sources) key))"
  using assms
  by (auto simp: verify_sources_def split: sum.splits option.splits pyval.splits
      dest: verify_sources_loop_records)

lemma call_arm_verify_sources:
  assumes "call_arm w Verify_sources v p = Inr (r, p')"
  shows "\<exists>analysis analysis'. v = PDict analysis \<and> r = PDict analysis'
           \<and> verify_sources w (p_sha p) analysis = Inr (analysis', p_sha p')
           \<and> p_ticks p' = p_ticks p"
  using assms
  by (cases v) (auto simp: call_arm_def split: sum.splits)

lemma recorded_keys:
  "dom (\<lambda>key. case hs key of
                Some stored \<Rightarrow> Some stored
              | None \<Rightarrow> map_option f (map_of entries key))
     = dom hs \<union> set (map fst entries)"
proof -
  have "dom (\<lambda>key. case hs key of
                Some stored \<Rightarrow> Some stored
              | None \<Rightarrow> map_option f (map_of entries key))
          = dom hs \<union> dom (map_of entries)"
    by (auto simp: dom_def split: option.splits)
  then show ?thesis
    by (simp add: dom_map_of_conv_image_fst)
qed

section \<open>The claims on the journalism pipeline\<close>

text \<open>
  C9, as the claim states it, fails for \<^verbatim>\<open>approve_publication\<close>: on a publication without
  verified facts it returns None, and on the publication that the pipeline builds for its
  own story (one verified fact, no source cited) it returns False.
\<close>

theorem approve_publication_rejects:
  "approve_publication [] = Inr PNone
   \<and> \<not> truthy PNone
   \<and> approve_publication
         [(''verified_facts'', PList [PDict [(''claim'', PStr ''Sample fact''),
                                            (''source'', PStr ''test'')]]),
          (''sources_cited'', PInt 0)] = Inr (PBool False)
   \<and> \<not> truthy (PBool False)"
  by (simp add: approve_publication_def dict_get_def dict_get_or_def)

text \<open>
  C9, amended. \<^verbatim>\<open>check_story_ethics\<close> and \<^verbatim>\<open>OmniplexConstitution.check\<close> return True for
  every input. \<^verbatim>\<open>approve_publication\<close> is a real check: it returns a truthy value exactly
  when the publication's verified facts are truthy and its count of sources cited is above
  0.
\<close>

theorem ethics_stubs_and_publication_check:
  "check_story_ethics story = True
   \<and> check action data = True
   \<and> (\<exists>v. approve_publication publication = Inr v \<and> truthy v)
       = (truthy (dict_get publication ''verified_facts'')
          \<and> py_gt (dict_get_or publication ''sources_cited'' (PInt 0)) 0 = Inr True)"
  by (simp add: check_story_ethics_def check_always approve_publication_truthy_iff)

text \<open>
  C8. The claim is what the pipeline needs and the code misses it: \<^verbatim>\<open>prepare_publication\<close>
  reads \<^verbatim>\<open>analysis['headline']\<close> where the other arms read \<^verbatim>\<open>analysis.get('headline')\<close>, so
  on the empty dict (what \<^verbatim>\<open>analyze_story\<close> returns for a story that the ethics check
  rejects) it raises KeyError; passed through the arms after the analyzer, the empty dict
  reaches the publisher and the exception leaves the loop.
\<close>

theorem prepare_publication_raises_on_empty_dict:
  "prepare_publication w t [] = Inl (KeyError ''headline'')
   \<and> call_arm w Prepare_publication (PDict []) p = Inl (KeyError ''headline'')
   \<and> pipeline_loop w (drop 2 pipeline_arms) (PDict []) p = Inl (KeyError ''headline'')"
  by (simp add: prepare_publication_def call_arm_def pipeline_arms_def fact_check_def
      extract_facts_def check_primary_source_def check_secondary_source_def
      check_historical_pattern_def verify_sources_def aggregate_apis_def dict_get_or_def
      call_gov_api_def call_news_apis_def build_context_def get_historical_context_def
      get_stakeholder_positions_def find_related_events_def project_implications_def
      detect_bias_def Let_def)

text \<open>
  C7, as the claim states it, fails. An analysis with a headline and one source, taken
  through the six arms from the fact checker to the publisher, comes out READY\_TO\_PUBLISH;
  the verifier has recorded one hash (for the source, in \<^verbatim>\<open>verify_sources\<close>) and the
  publication carries one, its \<^verbatim>\<open>sha_signature\<close>: there is no fingerprint per stage.
\<close>

theorem published_with_one_fingerprint:
  "length (drop 2 pipeline_arms) = 6
   \<and> (case pipeline_loop plain_world (drop 2 pipeline_arms)
              (PDict [(''headline'', PStr ''Budget vote''),
                      (''sources'', PList [PDict [(''id'', PStr ''hansard-1''),
                                                  (''content'', PStr ''Division 12: ayes 300'')]])])
              \<lparr>p_sha = Map.empty, p_ticks = 0\<rparr> of
         Inl e \<Rightarrow> False
       | Inr (PDict pub, p) \<Rightarrow>
           map_of pub ''status'' = Some (PStr ''READY_TO_PUBLISH'')
           \<and> map fst pub = [''headline'', ''summary'', ''verified_facts'', ''sources_cited'',
                ''bias_disclosure'', ''publication_time'', ''website_target'',
                ''sha_signature'', ''status'']
           \<and> p_sha p = [KStr ''hansard-1'' \<mapsto> ''Division 12: ayes 300'']
       | Inr (other, p) \<Rightarrow> False)"
  by (simp add: pipeline_arms_def call_arm_def fact_check_def extract_facts_def
      check_primary_source_def check_secondary_source_def check_historical_pattern_def
      verify_sources_def verify_jp_def compute_hash_def check_source_credibility_def
      aggregate_apis_def dict_get_or_def dict_get_def call_gov_api_def call_news_apis_def
      build_context_def get_historical_context_def get_stakeholder_positions_def
      find_related_events_def project_implications_def detect_bias_def calculate_bias_def
      prepare_publication_def generate_summary_def py_format_def approve_publication_def
      plain_world_def plain_digest_def plain_dumps_def ticking_clock_def two_digits_def
      digit_char_def Let_def)

text \<open>
  C7, amended. A publication that \<^verbatim>\<open>prepare_publication\<close> returns (READY\_TO\_PUBLISH or
  not) has the nine keys of the source and carries one fingerprint, \<^verbatim>\<open>sha_signature\<close>: the
  hash of the JSON text of the analysis it was given, whatever arms the analysis has passed
  through. The verifier records hashes in \<^verbatim>\<open>verify_sources\<close> only: every other arm leaves
  its dict as it was. And \<^verbatim>\<open>verify_sources\<close>, when it returns, has called the verifier for
  every source of the analysis, and the verifier's dict is then the one before the call
  with one more entry for each source id that it did not hold: the hash of the content of
  the first source with that id. So the keys recorded are source ids, one hash each, and
  their number does not depend on the arms passed.
\<close>

theorem publication_carries_one_signature:
  "(prepare_publication w t analysis = Inr publication \<longrightarrow>
      map fst publication
        = [''headline'', ''summary'', ''verified_facts'', ''sources_cited'',
           ''bias_disclosure'', ''publication_time'', ''website_target'',
           ''sha_signature'', ''status'']
      \<and> map_of publication ''sha_signature''
          = Some (PStr (compute_hash (sha256_hex w) (json_dumps w False (PDict analysis)))))
   \<and> (call_arm w f v p = Inr (r, p') \<and> f \<noteq> Verify_sources \<longrightarrow> p_sha p' = p_sha p)
   \<and> (call_arm w Verify_sources v p = Inr (r, p') \<longrightarrow>
        (\<exists>given verified. v = PDict given \<and> r = PDict verified
           \<and> verify_sources w (p_sha p) given = Inr (verified, p_sha p')))
   \<and> (verify_sources w hs given = Inr (verified, hs') \<longrightarrow>
        (\<exists>sources. py_iter (dict_get_or given ''sources'' (PList [])) = Inr sources
           \<and> list_all (\<lambda>source. source_entry source \<noteq> None) sources
           \<and> hs' = (\<lambda>key. case hs key of
                         Some stored \<Rightarrow> Some stored
                       | None \<Rightarrow> map_option (compute_hash (sha256_hex w))
                                  (map_of (List.map_filter source_entry sources) key))
           \<and> dom hs' = dom hs \<union> set (map fst (List.map_filter source_entry sources))))"
proof (intro conjI impI)
  assume "prepare_publication w t analysis = Inr publication"
  then show "map fst publication
        = [''headline'', ''summary'', ''verified_facts'', ''sources_cited'',
           ''bias_disclosure'', ''publication_time'', ''website_target'',
           ''sha_signature'', ''status'']"
    and "map_of publication ''sha_signature''
          = Some (PStr (compute_hash (sha256_hex w) (json_dumps w False (PDict analysis))))"
    by (rule prepare_publication_shape)+
next
  assume "call_arm w f v p = Inr (r, p') \<and> f \<noteq> Verify_sources"
  then show "p_sha p' = p_sha p"
    by (auto dest: call_arm_keeps_hashes)
next
  assume "call_arm w Verify_sources v p = Inr (r, p')"
  from call_arm_verify_sources[OF this]
  show "\<exists>given verified. v = PDict given \<and> r = PDict verified
           \<and> verify_sources w (p_sha p) given = Inr (verified, p_sha p')"
    by blast
next
  assume "verify_sources w hs given = Inr (verified, hs')"
  from verify_sources_records[OF this]
  obtain sources where s: "py_iter (dict_get_or given ''sources'' (PList [])) = Inr sources"
    and a: "list_all (\<lambda>source. source_entry source \<noteq> None) sources"
    and h: "hs' = (\<lambda>key. case hs key of
                         Some stored \<Rightarrow> Some stored
                       | None \<Rightarrow> map_option (compute_hash (sha256_hex w))
                                  (map_of (List.map_filter source_entry sources) key))"
    by blast
  have "dom hs' = dom hs \<union> set (map fst (List.map_filter source_entry sources))"
    by (subst h) (rule recorded_keys)
  with s a h
  show "\<exists>sources. py_iter (dict_get_or given ''sources'' (PList [])) = Inr sources
           \<and> list_all (\<lambda>source. source_entry source \<noteq> None) sources
           \<and> hs' = (\<lambda>key. case hs key of
                         Some stored \<Rightarrow> Some stored
                       | None \<Rightarrow> map_option (compute_hash (sha256_hex w))
                                  (map_of (List.map_filter source_entry sources) key))
           \<and> dom hs' = dom hs \<union> set (map fst (List.map_filter source_entry sources))"
    by blast
qed

theorem publication_carries_one_signature_witness:
  "prepare_publication plain_world (ticking_clock 0)
       [(''headline'', PStr ''Budget vote''),
        (''verified_facts'', PList [PStr ''ayes 300'']),
        (''sources'', PList [PStr ''hansard-1''])]
     = Inr [(''headline'', PStr ''Budget vote''),
            (''summary'', PStr ''Summary of Budget vote''),
            (''verified_facts'', PList [PStr ''ayes 300'']),
            (''sources_cited'', PInt 1),
            (''bias_disclosure'', PDict []),
            (''publication_time'', PStr ''2025-06-01T10:00:00''),
            (''website_target'', PStr ''omniplex.earth''),
            (''sha_signature'', PStr ''headline=Budget vote;verified_facts=?;sources=?;''),
            (''status'', PStr ''READY_TO_PUBLISH'')]
   \<and> call_arm plain_world Fact_check (PDict []) \<lparr>p_sha = Map.empty, p_ticks = 0\<rparr>
     = Inr (PDict [(''verified_facts'', PList [PDict [(''claim'', PStr ''Sample fact''),
                                                      (''source'', PStr ''test'')]]),
                   (''verification_rate'', PFloat 1)],
            \<lparr>p_sha = Map.empty, p_ticks = 0\<rparr>)
   \<and> Fact_check \<noteq> Verify_sources
   \<and> call_arm plain_world Verify_sources
        (PDict [(''headline'', PStr ''Budget vote''),
                (''sources'', PList [PDict [(''id'', PStr ''hansard-1''),
                                            (''content'', PStr ''Division 12: ayes 300'')],
                                     PDict [(''id'', PStr ''hansard-1''),
                                            (''content'', PStr ''Division 12: ayes 301'')]])])
        \<lparr>p_sha = Map.empty, p_ticks = 0\<rparr>
     = Inr (PDict [(''headline'', PStr ''Budget vote''),
                   (''sources'', PList [PDict [(''id'', PStr ''hansard-1''),
                                               (''content'', PStr ''Division 12: ayes 300''),
                                               (''credibility'', PFloat (4 / 5)),
                                               (''sha_verified'', PBool True)],
                                        PDict [(''id'', PStr ''hansard-1''),
                                               (''content'', PStr ''Division 12: ayes 301''),
                                               (''credibility'', PFloat (4 / 5)),
                                               (''sha_verified'', PBool False)]])],
            \<lparr>p_sha = [KStr ''hansard-1'' \<mapsto> ''Division 12: ayes 300''], p_ticks = 0\<rparr>)
   \<and> verify_sources plain_world Map.empty
        [(''headline'', PStr ''Budget vote''),
         (''sources'', PList [PDict [(''id'', PStr ''hansard-1''),
                                     (''content'', PStr ''Division 12: ayes 300'')],
                              PDict [(''id'', PStr ''hansard-1''),
                                     (''content'', PStr ''Division 12: ayes 301'')]])]
     = Inr ([(''headline'', PStr ''Budget vote''),
             (''sources'', PList [PDict [(''id'', PStr ''hansard-1''),
                                         (''content'', PStr ''Division 12: ayes 300''),
                                         (''credibility'', PFloat (4 / 5)),
                                         (''sha_verified'', PBool True)],
                                  PDict [(''id'', PStr ''hansard-1''),
                                         (''content'', PStr ''Division 12: ayes 301''),
                                         (''credibility'', PFloat (4 / 5)),
                                         (''sha_verified'', PBool False)]])],
            [KStr ''hansard-1'' \<mapsto> ''Division 12: ayes 300''])
   \<and> dom [KStr ''hansard-1'' \<mapsto> ''Division 12: ayes 300''] = {KStr ''hansard-1''}"
proof -
  let ?analysis = "[(''headline'', PStr ''Budget vote''),
        (''verified_facts'', PList [PStr ''ayes 300'']),
        (''sources'', PList [PStr ''hansard-1''])]"
  let ?publication = "[(''headline'', PStr ''Budget vote''),
            (''summary'', PStr ''Summary of Budget vote''),
            (''verified_facts'', PList [PStr ''ayes 300'']),
            (''sources_cited'', PInt 1),
            (''bias_disclosure'', PDict []),
            (''publication_time'', PStr ''2025-06-01T10:00:00''),
            (''website_target'', PStr ''omniplex.earth''),
            (''sha_signature'', PStr ''headline=Budget vote;verified_facts=?;sources=?;''),
            (''status'', PStr ''READY_TO_PUBLISH'')]"
  let ?checked = "PDict [(''verified_facts'', PList [PDict [(''claim'', PStr ''Sample fact''),
                                                      (''source'', PStr ''test'')]]),
                   (''verification_rate'', PFloat 1)]"
  let ?given = "[(''headline'', PStr ''Budget vote''),
         (''sources'', PList [PDict [(''id'', PStr ''hansard-1''),
                                     (''content'', PStr ''Division 12: ayes 300'')],
                              PDict [(''id'', PStr ''hansard-1''),
                                     (''content'', PStr ''Division 12: ayes 301'')]])]"
  let ?verified = "[(''headline'', PStr ''Budget vote''),
             (''sources'', PList [PDict [(''id'', PStr ''hansard-1''),
                                         (''content'', PStr ''Division 12: ayes 300''),
                                         (''credibility'', PFloat (4 / 5)),
                                         (''sha_verified'', PBool True)],
                                  PDict [(''id'', PStr ''hansard-1''),
                                         (''content'', PStr ''Division 12: ayes 301''),
                                         (''credibility'', PFloat (4 / 5)),
                                         (''sha_verified'', PBool False)]])]"
  have pp: "prepare_publication plain_world (ticking_clock 0) ?analysis = Inr ?publication"
    by (simp add: prepare_publication_def generate_summary_def py_format_def
        approve_publication_def dict_get_or_def dict_get_def compute_hash_def
        plain_world_def plain_digest_def plain_dumps_def
        ticking_clock_def two_digits_def digit_char_def Let_def)
  have fc: "call_arm plain_world Fact_check (PDict []) \<lparr>p_sha = Map.empty, p_ticks = 0\<rparr>
     = Inr (?checked, \<lparr>p_sha = Map.empty, p_ticks = 0\<rparr>)"
    by (simp add: call_arm_def fact_check_def extract_facts_def check_primary_source_def
        check_secondary_source_def check_historical_pattern_def Let_def)
  have vs: "verify_sources plain_world Map.empty ?given
     = Inr (?verified, [KStr ''hansard-1'' \<mapsto> ''Division 12: ayes 300''])"
    by (simp add: verify_sources_def verify_jp_def compute_hash_def
        check_source_credibility_def dict_get_or_def plain_world_def plain_digest_def Let_def)
  have ca: "call_arm plain_world Verify_sources (PDict ?given)
        \<lparr>p_sha = Map.empty, p_ticks = 0\<rparr>
     = Inr (PDict ?verified,
            \<lparr>p_sha = [KStr ''hansard-1'' \<mapsto> ''Division 12: ayes 300''], p_ticks = 0\<rparr>)"
    by (simp add: call_arm_def vs)
  note at_verifier = publication_carries_one_signature
      [where w = plain_world and t = "ticking_clock 0" and analysis = ?analysis
         and publication = ?publication and f = Fact_check and v = "PDict ?given"
         and p = "\<lparr>p_sha = Map.empty, p_ticks = 0\<rparr>" and r = "PDict ?verified"
         and p' = "\<lparr>p_sha = [KStr ''hansard-1'' \<mapsto> ''Division 12: ayes 300''],
                      p_ticks = 0\<rparr>"
         and hs = Map.empty and given = ?given and verified = ?verified
         and hs' = "[KStr ''hansard-1'' \<mapsto> ''Division 12: ayes 300'']"]
  from vs at_verifier
  obtain sources where s: "py_iter (dict_get_or ?given ''sources'' (PList [])) = Inr sources"
    and k: "dom [KStr ''hansard-1'' \<mapsto> ''Division 12: ayes 300'']
              = dom (Map.empty :: pykey \<rightharpoonup> string)
                \<union> set (map fst (List.map_filter source_entry sources))"
    by blast
  from s have "sources = [PDict [(''id'', PStr ''hansard-1''),
                                 (''content'', PStr ''Division 12: ayes 300'')],
                          PDict [(''id'', PStr ''hansard-1''),
                                 (''content'', PStr ''Division 12: ayes 301'')]]"
    by (simp add: dict_get_or_def)
  with k have d: "dom [KStr ''hansard-1'' \<mapsto> ''Division 12: ayes 300''] = {KStr ''hansard-1''}"
    by (simp add: map_filter_simps)
  note at_publisher = publication_carries_one_signature
      [where w = plain_world and t = "ticking_clock 0" and analysis = ?analysis
         and publication = ?publication and f = Fact_check and v = "PDict []"
         and p = "\<lparr>p_sha = Map.empty, p_ticks = 0\<rparr>" and r = ?checked
         and p' = "\<lparr>p_sha = Map.empty, p_ticks = 0\<rparr>" and hs = Map.empty
         and given = ?given and verified = ?verified
         and hs' = "[KStr ''hansard-1'' \<mapsto> ''Division 12: ayes 300'']"]
  from pp at_publisher
  have "map fst ?publication
        = [''headline'', ''summary'', ''verified_facts'', ''sources_cited'',
           ''bias_disclosure'', ''publication_time'', ''website_target'',
           ''sha_signature'', ''status'']"
    by blast
  with pp fc vs ca d show ?thesis by simp
qed

end
